theory Spec2Isabelle
  imports Main "HOL-Library.Sublist"
begin

section \<open>JavaScript values as the program sees them\<close>

text \<open>
  The program of \<^verbatim>\<open>elementi/js/wikidata-api.js\<close> works on documents parsed from JSON. They
  are untyped, so the model keeps them untyped: a value is \<open>undefined\<close>, \<open>null\<close>, a
  boolean, a number, a string, an array or an object. An object is the list of its own
  properties in the order of the document, each name occurring once (as \<open>JSON.parse\<close>
  leaves it). Numbers are the integers: the program only tests them for truthiness,
  compares a length with zero and prints them. A string is the list of its bytes in
  UTF-8; the program looks into strings only for the characters of a date, which are
  single bytes.

  A property read also finds what a value inherits from its prototype. What is found
  there is never part of a document: it is a built-in function, given by its name and
  its number of parameters, or, under the name \<open>__proto__\<close>, the prototype object
  itself.
\<close>

datatype prototype =
    Object_prototype
  | Array_prototype
  | String_prototype
  | Number_prototype
  | Boolean_prototype
  | Function_prototype

datatype json =
    JUndefined
  | JNull
  | JBool bool
  | JNum int
  | JStr string
  | JArr "json list"
  | JObj "(string \<times> json) list"
  | JFunction string nat
  | JPrototype prototype

text \<open>What a \<^verbatim>\<open>throw\<close> carries: a read of a property of \<open>null\<close> or \<open>undefined\<close> and a call
  of something that is no function raise \<open>TypeError\<close>; \<^verbatim>\<open>fetch\<close> rejects with
  \<open>NetworkError\<close>; \<^verbatim>\<open>response.json()\<close> rejects with \<open>SyntaxError\<close>.\<close>

datatype error = TypeError | NetworkError | SyntaxError

definition then_e :: "error + 'a \<Rightarrow> ('a \<Rightarrow> error + 'b) \<Rightarrow> error + 'b" where
  "then_e r f = (case r of Inl e \<Rightarrow> Inl e | Inr v \<Rightarrow> f v)"

text \<open>The values that count as false in a condition.\<close>

fun truthy :: "json \<Rightarrow> bool" where
  "truthy JUndefined = False"
| "truthy JNull = False"
| "truthy (JBool b) = b"
| "truthy (JNum n) = (n \<noteq> 0)"
| "truthy (JStr s) = (s \<noteq> [])"
| "truthy (JArr xs) = True"
| "truthy (JObj kvs) = True"
| "truthy (JFunction n a) = True"
| "truthy (JPrototype P) = True"

text \<open>Decimal printing of numbers, as \<open>String(n)\<close> gives it for an integer of fewer than
  twenty-two digits (from there on JavaScript prints a power of ten).\<close>

definition digit_char :: "nat \<Rightarrow> char" where
  "digit_char n = ''0123456789'' ! (n mod 10)"

fun show_nat :: "nat \<Rightarrow> string" where
  "show_nat n = (if n < 10 then [digit_char n] else show_nat (n div 10) @ [digit_char n])"

declare show_nat.simps [simp del]

definition show_int :: "int \<Rightarrow> string" where
  "show_int i = (if i < 0 then CHR ''-'' # show_nat (nat (- i)) else show_nat (nat i))"

fun join :: "string \<Rightarrow> string list \<Rightarrow> string" where
  "join sep [] = []"
| "join sep [x] = x"
| "join sep (x # y # ys) = x @ sep @ join sep (y # ys)"

text \<open>\<open>String(v)\<close>, which a template literal \<^verbatim>\<open>${v}\<close> and a computed property name
  \<^verbatim>\<open>o[v]\<close> apply to \<open>v\<close>. An array prints its elements separated by commas, \<open>null\<close> and
  \<open>undefined\<close> elements as nothing. A built-in function prints as V8 prints it (the
  text is left to the engine); a prototype object prints as the value it wraps.\<close>

fun to_string :: "json \<Rightarrow> string" where
  "to_string JUndefined = ''undefined''"
| "to_string JNull = ''null''"
| "to_string (JBool b) = (if b then ''true'' else ''false'')"
| "to_string (JNum n) = show_int n"
| "to_string (JStr s) = s"
| "to_string (JArr xs) =
     join '','' (map (\<lambda>x. if x = JNull \<or> x = JUndefined then [] else to_string x) xs)"
| "to_string (JObj kvs) = ''[object Object]''"
| "to_string (JFunction n a) = ''function '' @ n @ ''() { [native code] }''"
| "to_string (JPrototype P) =
     (case P of
        Object_prototype \<Rightarrow> ''[object Object]''
      | Array_prototype \<Rightarrow> []
      | String_prototype \<Rightarrow> []
      | Number_prototype \<Rightarrow> ''0''
      | Boolean_prototype \<Rightarrow> ''false''
      | Function_prototype \<Rightarrow> ''function () { [native code] }'')"

text \<open>The index that a property name denotes in a sequence of \<open>n\<close> elements.\<close>

definition key_index :: "string \<Rightarrow> nat \<Rightarrow> nat option" where
  "key_index k n = find (\<lambda>i. show_nat i = k) [0..<n]"

text \<open>
  The members of the standard prototypes that have a string as their name, as
  ECMAScript 2024 lists them (with its annex B): each method with the number of its
  parameters, which is its \<open>length\<close>. \<open>trimLeft\<close> and \<open>trimRight\<close> are the functions
  \<open>trimStart\<close> and \<open>trimEnd\<close> under a second name. The prototypes of arrays, of strings
  and of functions are themselves an array, a string and a function, and have a
  \<open>length\<close> of zero.
\<close>

definition native :: "string \<Rightarrow> nat \<Rightarrow> string \<times> json" where
  "native k n = (k, JFunction k n)"

definition object_members :: "(string \<times> json) list" where
  "object_members =
     [(''constructor'', JFunction ''Object'' 1),
      native ''hasOwnProperty'' 1, native ''isPrototypeOf'' 1,
      native ''propertyIsEnumerable'' 1, native ''toLocaleString'' 0,
      native ''toString'' 0, native ''valueOf'' 0,
      native ''__defineGetter__'' 2, native ''__defineSetter__'' 2,
      native ''__lookupGetter__'' 1, native ''__lookupSetter__'' 1]"

definition array_members :: "(string \<times> json) list" where
  "array_members =
     [(''constructor'', JFunction ''Array'' 1), (''length'', JNum 0),
      native ''at'' 1, native ''concat'' 1, native ''copyWithin'' 2, native ''entries'' 0,
      native ''every'' 1, native ''fill'' 1, native ''filter'' 1, native ''find'' 1,
      native ''findIndex'' 1, native ''findLast'' 1, native ''findLastIndex'' 1,
      native ''flat'' 0, native ''flatMap'' 1, native ''forEach'' 1, native ''includes'' 1,
      native ''indexOf'' 1, native ''join'' 1, native ''keys'' 0, native ''lastIndexOf'' 1,
      native ''map'' 1, native ''pop'' 0, native ''push'' 1, native ''reduce'' 1,
      native ''reduceRight'' 1, native ''reverse'' 0, native ''shift'' 0, native ''slice'' 2,
      native ''some'' 1, native ''sort'' 1, native ''splice'' 2, native ''toLocaleString'' 0,
      native ''toReversed'' 0, native ''toSorted'' 1, native ''toSpliced'' 2,
      native ''toString'' 0, native ''unshift'' 1, native ''values'' 0, native ''with'' 2]"

definition string_members :: "(string \<times> json) list" where
  "string_members =
     [(''constructor'', JFunction ''String'' 1), (''length'', JNum 0),
      native ''at'' 1, native ''charAt'' 1, native ''charCodeAt'' 1, native ''codePointAt'' 1,
      native ''concat'' 1, native ''endsWith'' 1, native ''includes'' 1, native ''indexOf'' 1,
      native ''isWellFormed'' 0, native ''lastIndexOf'' 1, native ''localeCompare'' 1,
      native ''match'' 1, native ''matchAll'' 1, native ''normalize'' 0, native ''padEnd'' 1,
      native ''padStart'' 1, native ''repeat'' 1, native ''replace'' 2, native ''replaceAll'' 2,
      native ''search'' 1, native ''slice'' 2, native ''split'' 2, native ''startsWith'' 1,
      native ''substring'' 2, native ''toLocaleLowerCase'' 0, native ''toLocaleUpperCase'' 0,
      native ''toLowerCase'' 0, native ''toString'' 0, native ''toUpperCase'' 0,
      native ''toWellFormed'' 0, native ''trim'' 0, native ''trimEnd'' 0, native ''trimStart'' 0,
      native ''valueOf'' 0,
      native ''substr'' 2, native ''anchor'' 1, native ''big'' 0, native ''blink'' 0,
      native ''bold'' 0, native ''fixed'' 0, native ''fontcolor'' 1, native ''fontsize'' 1,
      native ''italics'' 0, native ''link'' 1, native ''small'' 0, native ''strike'' 0,
      native ''sub'' 0, native ''sup'' 0,
      (''trimLeft'', JFunction ''trimStart'' 0), (''trimRight'', JFunction ''trimEnd'' 0)]"

definition number_members :: "(string \<times> json) list" where
  "number_members =
     [(''constructor'', JFunction ''Number'' 1),
      native ''toExponential'' 1, native ''toFixed'' 1, native ''toLocaleString'' 0,
      native ''toPrecision'' 1, native ''toString'' 1, native ''valueOf'' 0]"

definition boolean_members :: "(string \<times> json) list" where
  "boolean_members =
     [(''constructor'', JFunction ''Boolean'' 1),
      native ''toString'' 0, native ''valueOf'' 0]"

definition function_members :: "(string \<times> json) list" where
  "function_members =
     [(''constructor'', JFunction ''Function'' 1), (''length'', JNum 0), (''name'', JStr []),
      native ''apply'' 2, native ''bind'' 1, native ''call'' 1, native ''toString'' 0]"

fun members :: "prototype \<Rightarrow> (string \<times> json) list" where
  "members Object_prototype = object_members"
| "members Array_prototype = array_members"
| "members String_prototype = string_members"
| "members Number_prototype = number_members"
| "members Boolean_prototype = boolean_members"
| "members Function_prototype = function_members"

text \<open>
  What a value whose prototype is \<open>P\<close> finds under a name that is not one of its own
  properties: a member of \<open>P\<close>, or else a member of \<open>Object.prototype\<close>, which ends every
  chain, or else \<open>undefined\<close>. The name \<open>__proto__\<close> gives \<open>P\<close> itself. The accessors
  \<open>caller\<close> and \<open>arguments\<close> of \<open>Function.prototype\<close> raise \<open>TypeError\<close> on a built-in
  function.
\<close>

definition inherited :: "prototype \<Rightarrow> string \<Rightarrow> error + json" where
  "inherited P k =
     (if k = ''__proto__'' then Inr (JPrototype P)
      else if P = Function_prototype \<and> (k = ''caller'' \<or> k = ''arguments'') then Inl TypeError
      else case map_of (members P) k of
             Some v \<Rightarrow> Inr v
           | None \<Rightarrow>
               (case map_of object_members k of Some v \<Rightarrow> Inr v | None \<Rightarrow> Inr JUndefined))"

text \<open>
  The property read \<^verbatim>\<open>v.k\<close> or \<^verbatim>\<open>v[k]\<close>: an own property first, then the prototype. The
  own properties of a string and of an array are \<open>length\<close> and the indices, those of an
  object are its fields, those of a built-in function are \<open>length\<close> and \<open>name\<close> (the
  further properties that the constructors \<open>Object\<close>, \<open>Array\<close>, \<open>String\<close>, \<open>Number\<close>,
  \<open>Boolean\<close> and \<open>Function\<close> carry are left out: the program reads from a built-in only
  the names that it reads from a document, and no constructor has one of these).
\<close>

fun js_get :: "json \<Rightarrow> string \<Rightarrow> error + json" where
  "js_get JUndefined k = Inl TypeError"
| "js_get JNull k = Inl TypeError"
| "js_get (JBool b) k = inherited Boolean_prototype k"
| "js_get (JNum n) k = inherited Number_prototype k"
| "js_get (JStr s) k =
     (if k = ''length'' then Inr (JNum (int (length s)))
      else case key_index k (length s) of
             Some i \<Rightarrow> Inr (JStr [s ! i])
           | None \<Rightarrow> inherited String_prototype k)"
| "js_get (JArr xs) k =
     (if k = ''length'' then Inr (JNum (int (length xs)))
      else case key_index k (length xs) of
             Some i \<Rightarrow> Inr (xs ! i)
           | None \<Rightarrow> inherited Array_prototype k)"
| "js_get (JObj kvs) k =
     (case map_of kvs k of Some v \<Rightarrow> Inr v | None \<Rightarrow> inherited Object_prototype k)"
| "js_get (JFunction n a) k =
     (if k = ''length'' then Inr (JNum (int a))
      else if k = ''name'' then Inr (JStr n)
      else inherited Function_prototype k)"
| "js_get (JPrototype P) k =
     (if k = ''__proto__''
      then Inr (if P = Object_prototype then JNull else JPrototype Object_prototype)
      else inherited P k)"

section \<open>WikidataAPI: the extraction helpers\<close>

text \<open>
  \<^verbatim>\<open>
  getLabel(entity, language = 'it') {
      if (entity.labels && entity.labels[language]) {
          return entity.labels[language].value;
      }
      return 'Informazione non disponibile';
  }
  \<close>
  \<open>getDescription\<close> is the same function on \<open>entity.descriptions\<close>, with its own
  fallback.
\<close>

definition getLabel :: "json \<Rightarrow> string \<Rightarrow> error + json" where
  "getLabel entity language =
     then_e (js_get entity ''labels'') (\<lambda>labels.
       if \<not> truthy labels then Inr (JStr ''Informazione non disponibile'')
       else then_e (js_get labels language) (\<lambda>entry.
         if truthy entry then js_get entry ''value''
         else Inr (JStr ''Informazione non disponibile'')))"

definition getDescription :: "json \<Rightarrow> string \<Rightarrow> error + json" where
  "getDescription entity language =
     then_e (js_get entity ''descriptions'') (\<lambda>descriptions.
       if \<not> truthy descriptions then Inr (JStr ''Descrizione non disponibile'')
       else then_e (js_get descriptions language) (\<lambda>entry.
         if truthy entry then js_get entry ''value''
         else Inr (JStr ''Descrizione non disponibile'')))"

text \<open>
  \<open>getPropertyValue\<close> is not declared \<^verbatim>\<open>async\<close>, but for a value that carries an \<open>id\<close> it
  returns the call \<^verbatim>\<open>this.getEntityLabelById(value.id, language)\<close> of an \<^verbatim>\<open>async\<close>
  function, that is a promise. So what it returns is either a plain value or the
  pending label lookup of an id; the lookup itself (a request to the network) is
  modelled where the caller awaits or drops the promise.
\<close>

datatype jsval =
    Plain json
  | LabelPromise json string

definition getPropertyValue :: "json \<Rightarrow> string \<Rightarrow> string \<Rightarrow> error + jsval" where
  "getPropertyValue entity propertyId language =
     then_e (js_get entity ''claims'') (\<lambda>claims.
       if \<not> truthy claims then Inr (Plain (JStr ''Non specificato''))
       else then_e (js_get claims propertyId) (\<lambda>list.
         if \<not> truthy list then Inr (Plain (JStr ''Non specificato''))
         else
           then_e (js_get list ''0'') (\<lambda>claim.
           then_e (js_get claim ''mainsnak'') (\<lambda>mainsnak.
           then_e (js_get mainsnak ''datavalue'') (\<lambda>datavalue.
             if \<not> truthy datavalue then Inr (Plain (JStr ''Non specificato''))
             else
               then_e (js_get datavalue ''value'') (\<lambda>val.
               then_e (js_get val ''id'') (\<lambda>vid.
                 if truthy vid then Inr (LabelPromise vid language)
                 else if (case val of JStr s \<Rightarrow> True | _ \<Rightarrow> False) then Inr (Plain val)
                 else
                   then_e (js_get val ''text'') (\<lambda>text.
                     if truthy text then Inr (Plain text)
                     else
                       then_e (js_get val ''amount'') (\<lambda>amount.
                         if truthy amount then Inr (Plain amount)
                         else
                           then_e (js_get val ''time'') (\<lambda>time.
                             if truthy time then Inr (Plain time)
                             else Inr (Plain (JStr ''Non specificato''))))))))))))"

subsection \<open>Dates\<close>

text \<open>
  \<^verbatim>\<open>dateString.match(/\+(\d{4})-\d{2}-\d{2}/)\<close> searches the string for the leftmost place
  where the pattern matches, and \<^verbatim>\<open>match[1]\<close> is the group of four digits there.
  \<open>date_at\<close> is the match at the start of a string, \<open>date_search\<close> the search.
\<close>

definition is_digit :: "char \<Rightarrow> bool" where
  "is_digit c = (c \<in> set ''0123456789'')"

definition date_at :: "string \<Rightarrow> string option" where
  "date_at s =
     (if 11 \<le> length s \<and> s ! 0 = CHR ''+''
         \<and> list_all is_digit (take 4 (drop 1 s)) \<and> s ! 5 = CHR ''-''
         \<and> list_all is_digit (take 2 (drop 6 s)) \<and> s ! 8 = CHR ''-''
         \<and> list_all is_digit (take 2 (drop 9 s))
      then Some (take 4 (drop 1 s)) else None)"

fun date_search :: "string \<Rightarrow> string option" where
  "date_search [] = None"
| "date_search (c # cs) =
     (case date_at (c # cs) of Some y \<Rightarrow> Some y | None \<Rightarrow> date_search cs)"

text \<open>
  \<^verbatim>\<open>
  formatWikidataDate(dateString) {
      if (!dateString) return 'Data non disponibile';
      const match = dateString.match(/\+(\d{4})-\d{2}-\d{2}/);
      if (match) { return match[1]; }
      return dateString;
  }
  \<close>
  Only a string has a \<open>match\<close> method: on any other truthy value, a promise among
  them, the call raises \<open>TypeError\<close>. The one exception is the prototype of the strings,
  which has the method and is itself the empty string: nothing matches there, and it
  is returned as it is.
\<close>

fun formatWikidataDate :: "jsval \<Rightarrow> error + json" where
  "formatWikidataDate (LabelPromise i l) = Inl TypeError"
| "formatWikidataDate (Plain v) =
     (if \<not> truthy v then Inr (JStr ''Data non disponibile'')
      else case v of
             JStr s \<Rightarrow> (case date_search s of Some y \<Rightarrow> Inr (JStr y) | None \<Rightarrow> Inr (JStr s))
           | JPrototype String_prototype \<Rightarrow> Inr v
           | _ \<Rightarrow> Inl TypeError)"

section \<open>ProjectDetailApp: the query parameters\<close>

text \<open>
  \<^verbatim>\<open>
  this.urlParams = new URLSearchParams(window.location.search);
  this.artistName = this.urlParams.get('artist') || 'Giuseppe Penone';
  this.workName = this.urlParams.get('work') || 'Albero della Vita';
  this.year = this.urlParams.get('year') || '1962';
  \<close>
  The parsed query is the list of its name-value pairs; \<open>get\<close> returns the value of the
  first pair with the name, or \<open>null\<close>. The empty string is false in a condition, so
  \<^verbatim>\<open>||\<close> takes the default for it as for \<open>null\<close>.
\<close>

type_synonym url_params = "(string \<times> string) list"

definition params_get :: "url_params \<Rightarrow> string \<Rightarrow> string option" where
  "params_get ps name = map_of ps name"

definition or_default :: "string option \<Rightarrow> string \<Rightarrow> string" where
  "or_default v d = (case v of None \<Rightarrow> d | Some s \<Rightarrow> if s = [] then d else s)"

record app =
  artistName :: string
  workName :: string
  year :: string

definition new_app :: "url_params \<Rightarrow> app" where
  "new_app ps =
     \<lparr> artistName = or_default (params_get ps ''artist'') ''Giuseppe Penone'',
       workName = or_default (params_get ps ''work'') ''Albero della Vita'',
       year = or_default (params_get ps ''year'') ''1962'' \<rparr>"

section \<open>The page, the console and the network\<close>

text \<open>
  The state that the program changes. The page is the store of the properties of its
  elements, addressed by the id that \<^verbatim>\<open>document.getElementById\<close> takes, and the title of
  the document. Its HTML is not part of the sources, so the page is any page in which
  the elements that the program asks for exist, each id once, and are still in the
  document when the program asks for them: \<^verbatim>\<open>getElementById\<close> never returns \<open>null\<close>.

  The elements form a tree. \<open>inside w c p\<close> says that in the page as served the element
  \<open>c\<close> lies inside the element \<open>p\<close>, at any depth. Assigning \<open>textContent\<close> or \<open>innerHTML\<close>
  to an element replaces all that lies inside it: these elements leave the document,
  which \<open>removed\<close> records. What takes their place is a text, or the elements that the
  assigned markup describes; in the store these have no entry, as the markup of the
  program gives its elements no id. The properties \<open>textContent\<close> and \<open>innerHTML\<close> of
  the store hold what the page was served with or the program has assigned last.

  The console is the list of the errors logged, \<open>requests\<close> the list of the requests
  sent, and \<open>unhandled\<close> the rejections of promises that nothing awaits.
\<close>

datatype site =
    ArtistSearch | ArtistEntity | ArtistField string
  | WorkSearch | WorkEntity | WorkField string

datatype attr = TextContent | InnerHTML | Display | Href | Disabled

record world =
  elems :: "string \<Rightarrow> attr \<Rightarrow> json"
  inside :: "string \<Rightarrow> string \<Rightarrow> bool"
  removed :: "string \<Rightarrow> bool"
  title :: string
  console :: "(string \<times> error) list"
  requests :: "(site \<times> string) list"
  unhandled :: "error list"

text \<open>
  The network is outside the program: it may fail or answer, and answer one address
  differently from one request to the next. A request is told apart by the place of
  the program that sends it (each place sends at most one request in a page load)
  and by its address. \<^verbatim>\<open>await fetch(url)\<close> followed by \<^verbatim>\<open>await response.json()\<close> either
  rejects in \<^verbatim>\<open>fetch\<close>, or rejects in the parser, or yields the document.
\<close>

datatype response = FetchFailed | BadJson | Json json

type_synonym network = "site \<Rightarrow> string \<Rightarrow> response"

text \<open>A computation changes the world and returns a value or throws.\<close>

type_synonym 'a comp = "world \<Rightarrow> (error + 'a) \<times> world"

definition ret :: "'a \<Rightarrow> 'a comp" where
  "ret v w = (Inr v, w)"

definition lift :: "error + 'a \<Rightarrow> 'a comp" where
  "lift r w = (r, w)"

definition bind :: "'a comp \<Rightarrow> ('a \<Rightarrow> 'b comp) \<Rightarrow> 'b comp" where
  "bind m f w = (case m w of (Inl e, w') \<Rightarrow> (Inl e, w') | (Inr v, w') \<Rightarrow> f v w')"

definition seq :: "'a comp \<Rightarrow> 'b comp \<Rightarrow> 'b comp" where
  "seq m n = bind m (\<lambda>_. n)"

text \<open>\<^verbatim>\<open>try { m } catch (error) { h(error) }\<close>\<close>

definition try_catch :: "'a comp \<Rightarrow> (error \<Rightarrow> 'a comp) \<Rightarrow> 'a comp" where
  "try_catch m h w = (case m w of (Inl e, w') \<Rightarrow> h e w' | (Inr v, w') \<Rightarrow> (Inr v, w'))"

text \<open>
  The call of an \<^verbatim>\<open>async\<close> function whose promise is dropped: the call itself never
  throws, and a rejection reaches no \<^verbatim>\<open>catch\<close> of the caller. The function runs on its
  own, interleaved with what the caller does next. It is run here at the place of the
  call. The two display functions, which are the ones called this way, write one
  property of one container that nothing else reads or writes, so the page at the end
  is the same; what the choice fixes is where their requests and console entries
  stand among those of the caller, and no statement relies on that.
\<close>

definition detach :: "'a comp \<Rightarrow> unit comp" where
  "detach m w =
     (case m w of
        (Inl e, w') \<Rightarrow> (Inr (), w'\<lparr>unhandled := unhandled w' @ [e]\<rparr>)
      | (Inr v, w') \<Rightarrow> (Inr (), w'))"

definition console_error :: "string \<Rightarrow> error \<Rightarrow> unit comp" where
  "console_error msg e w = (Inr (), w\<lparr>console := console w @ [(msg, e)]\<rparr>)"

text \<open>
  The assignment \<^verbatim>\<open>document.getElementById(i).p = v\<close>. For the two properties that are
  the content of the element, it also takes what was inside the element out of the
  document.
\<close>

fun replaces_content :: "attr \<Rightarrow> bool" where
  "replaces_content TextContent = True"
| "replaces_content InnerHTML = True"
| "replaces_content p = False"

definition set_prop :: "string \<Rightarrow> attr \<Rightarrow> json \<Rightarrow> unit comp" where
  "set_prop i p v w =
     (Inr (),
      w\<lparr>elems := (elems w)(i := (elems w i)(p := v)),
        removed := (if replaces_content p then (\<lambda>c. removed w c \<or> inside w c i)
                    else removed w)\<rparr>)"

definition set_title :: "string \<Rightarrow> unit comp" where
  "set_title t w = (Inr (), w\<lparr>title := t\<rparr>)"

definition fetch_json :: "network \<Rightarrow> site \<Rightarrow> string \<Rightarrow> json comp" where
  "fetch_json net site url w =
     (let w' = w\<lparr>requests := requests w @ [(site, url)]\<rparr>
      in case net site url of
           FetchFailed \<Rightarrow> (Inl NetworkError, w')
         | BadJson \<Rightarrow> (Inl SyntaxError, w')
         | Json d \<Rightarrow> (Inr d, w'))"

section \<open>WikidataAPI: the query client\<close>

text \<open>\<open>encodeURIComponent\<close> on the bytes of a string: every byte but the letters, the
  digits and \<^verbatim>\<open>-_.!~*'()\<close> becomes \<open>%\<close> and its two hexadecimal digits.\<close>

definition hex_digit :: "nat \<Rightarrow> char" where
  "hex_digit n = ''0123456789ABCDEF'' ! (n mod 16)"

definition unreserved :: "char \<Rightarrow> bool" where
  "unreserved c =
     (c \<in> set ''ABCDEFGHIJKLMNOPQRSTUVWXYZabcdefghijklmnopqrstuvwxyz0123456789-_.!~*'()'')"

definition encodeURIComponent :: "string \<Rightarrow> string" where
  "encodeURIComponent s =
     concat (map (\<lambda>c. if unreserved c then [c]
                       else [CHR ''%'', hex_digit (of_char c div 16), hex_digit (of_char c)]) s)"

definition entity_url :: "json \<Rightarrow> string" where
  "entity_url entityId =
     ''https://www.wikidata.org/wiki/Special:EntityData/'' @ to_string entityId @ ''.json''"

definition search_url :: "string \<Rightarrow> string \<Rightarrow> string" where
  "search_url searchTerm language =
     ''https://www.wikidata.org/w/api.php?action=wbsearchentities&search=''
       @ encodeURIComponent searchTerm @ ''&language='' @ language @ ''&format=json&origin=*''"

text \<open>
  \<^verbatim>\<open>
  async getEntity(entityId) {
      try {
          const response = await fetch(`${this.endpoint}${entityId}.json`);
          const data = await response.json();
          return data.entities[entityId];
      } catch (error) {
          console.error('Error fetching Wikidata entity:', error);
          return null;
      }
  }
  \<close>
\<close>

definition getEntity :: "network \<Rightarrow> site \<Rightarrow> json \<Rightarrow> json comp" where
  "getEntity net site entityId =
     try_catch
       (bind (fetch_json net site (entity_url entityId)) (\<lambda>data.
          lift (then_e (js_get data ''entities'') (\<lambda>entities.
                  js_get entities (to_string entityId)))))
       (\<lambda>err. seq (console_error ''Error fetching Wikidata entity:'' err) (ret JNull))"

text \<open>
  \<^verbatim>\<open>
  async searchEntities(searchTerm, language = 'it') {
      try {
          const url = `https://www.wikidata.org/w/api.php?action=wbsearchentities&search=${
              encodeURIComponent(searchTerm)}&language=${language}&format=json&origin=*`;
          const response = await fetch(url);
          const data = await response.json();
          return data.search;
      } catch (error) {
          console.error('Error searching Wikidata:', error);
          return [];
      }
  }
  \<close>
\<close>

definition searchEntities :: "network \<Rightarrow> site \<Rightarrow> string \<Rightarrow> string \<Rightarrow> json comp" where
  "searchEntities net site searchTerm language =
     try_catch
       (bind (fetch_json net site (search_url searchTerm language)) (\<lambda>data.
          lift (js_get data ''search'')))
       (\<lambda>err. seq (console_error ''Error searching Wikidata:'' err) (ret (JArr [])))"

text \<open>
  \<^verbatim>\<open>
  async getEntityLabelById(entityId, language = 'it') {
      try {
          const entity = await this.getEntity(entityId);
          return this.getLabel(entity, language);
      } catch (error) {
          return entityId;
      }
  }
  \<close>
\<close>

definition getEntityLabelById :: "network \<Rightarrow> site \<Rightarrow> json \<Rightarrow> string \<Rightarrow> json comp" where
  "getEntityLabelById net site entityId language =
     try_catch
       (bind (getEntity net site entityId) (\<lambda>entity. lift (getLabel entity language)))
       (\<lambda>err. ret entityId)"

text \<open>
  What becomes of the value that \<open>getPropertyValue\<close> returned. \<^verbatim>\<open>await v\<close> is \<open>v\<close> for a
  plain value and the result of the label lookup for a promise. A promise that is
  passed on without \<^verbatim>\<open>await\<close> still runs: its request is sent and its errors are logged.
\<close>

fun await_val :: "network \<Rightarrow> site \<Rightarrow> jsval \<Rightarrow> json comp" where
  "await_val net site (Plain v) = ret v"
| "await_val net site (LabelPromise i l) = getEntityLabelById net site i l"

definition unawaited :: "network \<Rightarrow> site \<Rightarrow> jsval \<Rightarrow> unit comp" where
  "unawaited net site pv = seq (await_val net site pv) (ret ())"

section \<open>ProjectDetailApp: the page controller\<close>

text \<open>
  The comparison \<^verbatim>\<open>results.length > 0\<close> converts its left side to a number. The length
  of an array, of a string or of a function is a number already; anything else can
  only be the \<open>length\<close> field of an object in the response. Of the strings, the
  conversion is modelled for the decimal integers, with or without a sign, and for the
  empty string, which is 0; every other string is taken for \<open>NaN\<close> (so a \<open>length\<close> field
  written as a string with a fraction, an exponent, blanks or a radix prefix is
  outside the model). \<open>None\<close> is \<open>NaN\<close>, which is greater than nothing.
\<close>

definition str_to_nat :: "string \<Rightarrow> nat option" where
  "str_to_nat s =
     (if list_all is_digit s then Some (foldl (\<lambda>a c. 10 * a + (of_char c - 48)) 0 s)
      else None)"

definition str_to_int :: "string \<Rightarrow> int option" where
  "str_to_int s =
     (case s of
        c # ds \<Rightarrow>
          if c = CHR ''-'' \<and> ds \<noteq> [] then map_option (\<lambda>n. - int n) (str_to_nat ds)
          else if c = CHR ''+'' \<and> ds \<noteq> [] then map_option int (str_to_nat ds)
          else map_option int (str_to_nat s)
      | [] \<Rightarrow> Some 0)"

fun to_number :: "json \<Rightarrow> int option" where
  "to_number JUndefined = None"
| "to_number JNull = Some 0"
| "to_number (JBool b) = Some (if b then 1 else 0)"
| "to_number (JNum n) = Some n"
| "to_number (JStr s) = str_to_int s"
| "to_number (JArr xs) = str_to_int (to_string (JArr xs))"
| "to_number (JObj kvs) = None"
| "to_number (JFunction n a) = None"
| "to_number (JPrototype P) =
     (if P = Object_prototype \<or> P = Function_prototype then None else Some 0)"

definition js_gt0 :: "json \<Rightarrow> bool" where
  "js_gt0 v = (case to_number v of Some n \<Rightarrow> 0 < n | None \<Rightarrow> False)"

definition nl :: string where
  "nl = [CHR 0x0A]"

text \<open>
  \<^verbatim>\<open>
  renderMetadata(container, data) {
      let html = '';
      Object.entries(data).forEach(([key, value]) => {
          html += `
              <div class="wikidata-item">
                  <div class="metadata-label">${key}:</div>
                  <div class="metadata-value">${value}</div>
              </div>
          `;
      });
      container.innerHTML = html;
  }
  \<close>
  \<open>data\<close> is the list of the entries of the object, in the order in which the object
  literal wrote them.
\<close>

definition metadata_item :: "string \<times> json \<Rightarrow> string" where
  \<open>metadata_item kv =
     nl @ ''                <div class="wikidata-item">''
     @ nl @ ''                    <div class="metadata-label">'' @ fst kv @ '':</div>''
     @ nl @ ''                    <div class="metadata-value">'' @ to_string (snd kv) @ ''</div>''
     @ nl @ ''                </div>''
     @ nl @ ''            ''\<close>

definition metadata_html :: "(string \<times> json) list \<Rightarrow> string" where
  "metadata_html data = concat (map metadata_item data)"

definition renderMetadata :: "string \<Rightarrow> (string \<times> json) list \<Rightarrow> unit comp" where
  "renderMetadata container data = set_prop container InnerHTML (JStr (metadata_html data))"

text \<open>An object literal evaluates its property values in order; the first one that
  throws ends the evaluation.\<close>

fun collect :: "(string \<times> json comp) list \<Rightarrow> (string \<times> json) list comp" where
  "collect [] = ret []"
| "collect (km # rest) =
     bind (snd km) (\<lambda>v. bind (collect rest) (\<lambda>vs. ret ((fst km, v) # vs)))"

text \<open>
  \<^verbatim>\<open>await this.wikidata.getPropertyValue(entity, pid)\<close> and
  \<^verbatim>\<open>await this.wikidata.formatWikidataDate(this.wikidata.getPropertyValue(entity, pid))\<close>:
  the first awaits what \<open>getPropertyValue\<close> returned, the second hands it to
  \<open>formatWikidataDate\<close> as it is.
\<close>

definition property_field :: "network \<Rightarrow> site \<Rightarrow> json \<Rightarrow> string \<Rightarrow> json comp" where
  "property_field net site entity pid =
     bind (lift (getPropertyValue entity pid ''it'')) (await_val net site)"

definition date_field :: "network \<Rightarrow> site \<Rightarrow> json \<Rightarrow> string \<Rightarrow> json comp" where
  "date_field net site entity pid =
     bind (lift (getPropertyValue entity pid ''it'')) (\<lambda>pv.
       seq (unawaited net site pv) (lift (formatWikidataDate pv)))"

text \<open>
  \<^verbatim>\<open>
  async displayArtistData(artist) {
      const container = document.getElementById('artistWikidata');
      const data = {
          'Nome': await this.wikidata.getLabel(artist),
          'Descrizione': await this.wikidata.getDescription(artist),
          'Data di nascita': await this.wikidata.formatWikidataDate(
              this.wikidata.getPropertyValue(artist, 'P569')),
          'Luogo di nascita': await this.wikidata.getPropertyValue(artist, 'P19'),
          'Nazionalita': await this.wikidata.getPropertyValue(artist, 'P27'),
          'Movimento artistico': await this.wikidata.getPropertyValue(artist, 'P135')
      };
      this.renderMetadata(container, data);
  }
  \<close>
  (the fifth key ends in a grave; it is written here by its two bytes). Each request
  is sent from the place named after the field it is for.
\<close>

definition nazionalita :: string where
  "nazionalita = ''Nazionalit'' @ [CHR 0xC3, CHR 0xA0]"

definition artistData :: "network \<Rightarrow> json \<Rightarrow> (string \<times> json) list comp" where
  "artistData net artist =
     collect
       [(''Nome'', lift (getLabel artist ''it'')),
        (''Descrizione'', lift (getDescription artist ''it'')),
        (''Data di nascita'', date_field net (ArtistField ''Data di nascita'') artist ''P569''),
        (''Luogo di nascita'', property_field net (ArtistField ''Luogo di nascita'') artist ''P19''),
        (nazionalita, property_field net (ArtistField nazionalita) artist ''P27''),
        (''Movimento artistico'',
           property_field net (ArtistField ''Movimento artistico'') artist ''P135'')]"

definition displayArtistData :: "network \<Rightarrow> json \<Rightarrow> unit comp" where
  "displayArtistData net artist = bind (artistData net artist) (renderMetadata ''artistWikidata'')"

text \<open>
  \<^verbatim>\<open>
  async displayWorkData(work) {
      const container = document.getElementById('workWikidata');
      const data = {
          'Titolo': await this.wikidata.getLabel(work),
          'Descrizione': await this.wikidata.getDescription(work),
          'Data di creazione': await this.wikidata.formatWikidataDate(
              this.wikidata.getPropertyValue(work, 'P571')),
          'Tecnica': await this.wikidata.getPropertyValue(work, 'P186'),
          'Materiale': await this.wikidata.getPropertyValue(work, 'P186'),
          'Dimensioni': await this.wikidata.getPropertyValue(work, 'P2049'),
          'Genere': await this.wikidata.getPropertyValue(work, 'P136')
      };
      this.renderMetadata(container, data);
  }
  \<close>
\<close>

definition workData :: "network \<Rightarrow> json \<Rightarrow> (string \<times> json) list comp" where
  "workData net work =
     collect
       [(''Titolo'', lift (getLabel work ''it'')),
        (''Descrizione'', lift (getDescription work ''it'')),
        (''Data di creazione'', date_field net (WorkField ''Data di creazione'') work ''P571''),
        (''Tecnica'', property_field net (WorkField ''Tecnica'') work ''P186''),
        (''Materiale'', property_field net (WorkField ''Materiale'') work ''P186''),
        (''Dimensioni'', property_field net (WorkField ''Dimensioni'') work ''P2049''),
        (''Genere'', property_field net (WorkField ''Genere'') work ''P136'')]"

definition displayWorkData :: "network \<Rightarrow> json \<Rightarrow> unit comp" where
  "displayWorkData net work = bind (workData net work) (renderMetadata ''workWikidata'')"

definition no_artist_html :: "string \<Rightarrow> string" where
  \<open>no_artist_html name =
     nl @ ''            <div class="alert alert-warning">''
     @ nl @ ''                <i class="fas fa-exclamation-triangle me-2"></i>''
     @ nl @ ''                Nessun dato trovato su Wikidata per l'artista "'' @ name @ ''".''
     @ nl @ ''            </div>''
     @ nl @ ''        ''\<close>

definition no_work_html :: "string \<Rightarrow> string" where
  \<open>no_work_html name =
     nl @ ''            <div class="alert alert-warning">''
     @ nl @ ''                <i class="fas fa-exclamation-triangle me-2"></i>''
     @ nl @ ''                Nessun dato trovato su Wikidata per l'opera "'' @ name @ ''".''
     @ nl @ ''            </div>''
     @ nl @ ''        ''\<close>

definition displayNoArtistData :: "app \<Rightarrow> unit comp" where
  "displayNoArtistData a =
     set_prop ''artistWikidata'' InnerHTML (JStr (no_artist_html (artistName a)))"

definition displayNoWorkData :: "app \<Rightarrow> unit comp" where
  "displayNoWorkData a =
     set_prop ''workWikidata'' InnerHTML (JStr (no_work_html (workName a)))"

text \<open>
  \<^verbatim>\<open>
  async loadArtistData() {
      const artistResults = await this.wikidata.searchEntities(this.artistName);
      if (artistResults.length > 0) {
          const artistEntity = await this.wikidata.getEntity(artistResults[0].id);
          this.displayArtistData(artistEntity);
      } else {
          this.displayNoArtistData();
      }
  }
  \<close>
  \<open>displayArtistData\<close> is \<^verbatim>\<open>async\<close> and is called without \<^verbatim>\<open>await\<close>.
\<close>

definition first_id :: "json \<Rightarrow> error + json" where
  "first_id results = then_e (js_get results ''0'') (\<lambda>first. js_get first ''id'')"

definition loadArtistData :: "network \<Rightarrow> app \<Rightarrow> unit comp" where
  "loadArtistData net a =
     bind (searchEntities net ArtistSearch (artistName a) ''it'') (\<lambda>artistResults.
     bind (lift (js_get artistResults ''length'')) (\<lambda>len.
       if js_gt0 len then
         bind (lift (first_id artistResults)) (\<lambda>i.
         bind (getEntity net ArtistEntity i) (\<lambda>artistEntity.
           detach (displayArtistData net artistEntity)))
       else displayNoArtistData a))"

text \<open>
  \<^verbatim>\<open>
  async loadWorkData() {
      const workResults = await this.wikidata.searchEntities(
          `${this.workName} ${this.artistName}`);
      if (workResults.length > 0) {
          const workEntity = await this.wikidata.getEntity(workResults[0].id);
          this.displayWorkData(workEntity);
          const wikidataLink = document.getElementById('viewOnWikidata');
          wikidataLink.href = `https://www.wikidata.org/wiki/${workResults[0].id}`;
          wikidataLink.disabled = false;
      } else {
          this.displayNoWorkData();
      }
  }
  \<close>
\<close>

definition wiki_page_url :: "json \<Rightarrow> string" where
  "wiki_page_url entityId = ''https://www.wikidata.org/wiki/'' @ to_string entityId"

definition loadWorkData :: "network \<Rightarrow> app \<Rightarrow> unit comp" where
  "loadWorkData net a =
     bind (searchEntities net WorkSearch (workName a @ '' '' @ artistName a) ''it'')
       (\<lambda>workResults.
     bind (lift (js_get workResults ''length'')) (\<lambda>len.
       if js_gt0 len then
         bind (lift (first_id workResults)) (\<lambda>i.
         bind (getEntity net WorkEntity i) (\<lambda>workEntity.
           seq (detach (displayWorkData net workEntity))
          (seq (set_prop ''viewOnWikidata'' Href (JStr (wiki_page_url i)))
               (set_prop ''viewOnWikidata'' Disabled (JBool False)))))
       else displayNoWorkData a))"

definition showLoading :: "unit comp" where
  "showLoading =
     seq (set_prop ''loadingSpinner'' Display (JStr ''block''))
         (set_prop ''projectContent'' Display (JStr ''none''))"

definition hideLoading :: "unit comp" where
  "hideLoading = set_prop ''loadingSpinner'' Display (JStr ''none'')"

definition showContent :: "unit comp" where
  "showContent = set_prop ''projectContent'' Display (JStr ''block'')"

definition error_html :: string where
  \<open>error_html =
     nl @ ''            <div class="alert alert-danger">''
     @ nl @ ''                <h4>Errore nel caricamento dei dati</h4>''
     @ nl @ ''                <p>Si '' @ [CHR 0xC3, CHR 0xA8]
         @ '' verificato un errore durante il caricamento delle informazioni da Wikidata.</p>''
     @ nl @ ''                <a href="edition-1962.html" class="btn btn-primary">Torna all'edizione 1962</a>''
     @ nl @ ''            </div>''
     @ nl @ ''        ''\<close>

definition showError :: "unit comp" where
  "showError = set_prop ''projectContent'' InnerHTML (JStr error_html)"

text \<open>
  \<^verbatim>\<open>
  async init() {
      this.showLoading();
      try {
          document.getElementById('projectTitle').textContent = this.workName;
          document.getElementById('projectArtist').textContent = this.artistName;
          document.getElementById('projectYear').textContent = this.year;
          document.title = `${this.workName} - ${this.artistName} | Biennale Eco Archive`;
          await this.loadArtistData();
          await this.loadWorkData();
          this.hideLoading();
          this.showContent();
      } catch (error) {
          console.error('Error initializing app:', error);
          this.hideLoading();
          this.showContent();
          this.showError();
      }
  }
  \<close>
\<close>

definition init :: "network \<Rightarrow> app \<Rightarrow> unit comp" where
  "init net a =
     seq showLoading
       (try_catch
          (seq (set_prop ''projectTitle'' TextContent (JStr (workName a)))
          (seq (set_prop ''projectArtist'' TextContent (JStr (artistName a)))
          (seq (set_prop ''projectYear'' TextContent (JStr (year a)))
          (seq (set_title (workName a @ '' - '' @ artistName a @ '' | Biennale Eco Archive''))
          (seq (loadArtistData net a)
          (seq (loadWorkData net a)
          (seq hideLoading
               showContent)))))))
          (\<lambda>err.
             seq (console_error ''Error initializing app:'' err)
            (seq hideLoading
            (seq showContent
                 showError))))"

text \<open>
  \<^verbatim>\<open>
  document.addEventListener('DOMContentLoaded', () => {
      const app = new ProjectDetailApp();
      app.init();
  });
  \<close>
  A page load: the world once everything that \<open>init\<close> started has finished.
\<close>

definition page_load :: "url_params \<Rightarrow> network \<Rightarrow> world \<Rightarrow> world" where
  "page_load ps net w = snd (init net (new_app ps) w)"


section \<open>Notions of the statements, and sample documents\<close>

text \<open>
  The definitions of this section are not part of the program. They name what the
  statements below talk about, give the documents and the networks on which the
  statements are tried, and the three properties of a computation that the proofs
  carry through the program.
\<close>

text \<open>The first claim of a property, \<^verbatim>\<open>entity.claims[propertyId][0]\<close>.\<close>

definition first_claim :: "json \<Rightarrow> string \<Rightarrow> error + json" where
  "first_claim entity propertyId =
     then_e (js_get entity ''claims'') (\<lambda>claims.
     then_e (js_get claims propertyId) (\<lambda>list. js_get list ''0''))"

text \<open>\<open>inherits P k\<close>: a value whose prototype is \<open>P\<close> finds something under the name \<open>k\<close>
  that is not a property of its own.\<close>

definition inherits :: "prototype \<Rightarrow> string \<Rightarrow> bool" where
  "inherits P k = (inherited P k \<noteq> Inr JUndefined)"

text \<open>The pattern of a date occurs in \<open>s\<close> at position \<open>i\<close>: a plus sign, four digits, a
  hyphen, two digits, a hyphen and two digits.\<close>

definition matches_at :: "string \<Rightarrow> nat \<Rightarrow> bool" where
  "matches_at s i =
     (i + 11 \<le> length s \<and> s ! i = CHR ''+''
      \<and> (\<forall>k<4. is_digit (s ! (i + 1 + k))) \<and> s ! (i + 5) = CHR ''-''
      \<and> (\<forall>k<2. is_digit (s ! (i + 6 + k))) \<and> s ! (i + 8) = CHR ''-''
      \<and> (\<forall>k<2. is_digit (s ! (i + 9 + k))))"

text \<open>An artist document: a label and a description in Italian, a date of birth, a
  place of birth that is another entity, and a citizenship claim without a value.\<close>

definition penone_labels :: "(string \<times> json) list" where
  "penone_labels = [(''it'', JObj [(''language'', JStr ''it''), (''value'', JStr ''Giuseppe Penone'')])]"

definition penone_descriptions :: "(string \<times> json) list" where
  "penone_descriptions =
     [(''it'', JObj [(''language'', JStr ''it''), (''value'', JStr ''artista italiano'')])]"

definition penone_claims :: "(string \<times> json) list" where
  "penone_claims =
     [(''P569'', JArr [JObj [(''mainsnak'', JObj [(''datavalue'',
         JObj [(''value'', JObj [(''time'', JStr ''+1947-04-03T00:00:00Z'')])])])]]),
      (''P19'', JArr [JObj [(''mainsnak'', JObj [(''datavalue'',
         JObj [(''value'', JObj [(''id'', JStr ''Q1'')])])])]]),
      (''P27'', JArr [JObj [(''mainsnak'', JObj [(''snaktype'', JStr ''novalue'')])]])]"

definition penone_fields :: "(string \<times> json) list" where
  "penone_fields =
     [(''labels'', JObj penone_labels),
      (''descriptions'', JObj penone_descriptions),
      (''claims'', JObj penone_claims)]"

definition penone :: json where
  "penone = JObj penone_fields"

text \<open>A document with two claims for the place of birth, the first one that of
  \<open>penone\<close>.\<close>

definition two_claims :: json where
  "two_claims =
     JObj [(''claims'', JObj [(''P19'',
       JArr [JObj [(''mainsnak'', JObj [(''datavalue'', JObj [(''value'', JObj [(''id'', JStr ''Q1'')])])])],
             JObj [(''mainsnak'', JObj [(''datavalue'', JObj [(''value'', JStr ''Torino'')])])]])])]"

text \<open>A page as served, before the script runs: first with no element inside another,
  then with the two containers inside the content element and a placeholder inside
  the container of the artist.\<close>

definition page0 :: world where
  "page0 = \<lparr> elems = (\<lambda>i p. JStr ''static''), inside = (\<lambda>c p. False),
             removed = (\<lambda>i. False), title = ''Progetto'', console = [],
             requests = [], unhandled = [] \<rparr>"


text \<open>A work document whose material is another entity, and the responses of the two
  endpoints.\<close>

definition albero :: json where
  "albero =
     JObj [(''labels'', JObj [(''it'', JObj [(''language'', JStr ''it''), (''value'', JStr ''Albero della Vita'')])]),
           (''claims'', JObj [
              (''P186'', JArr [JObj [(''mainsnak'', JObj [(''datavalue'',
                  JObj [(''value'', JObj [(''id'', JStr ''Q2'')])])])]])])]"

definition labelled :: "string \<Rightarrow> string \<Rightarrow> json" where
  "labelled i name =
     JObj [(''entities'', JObj [(i, JObj [(''labels'', JObj [(''it'', JObj [(''value'', JStr name)])])])])]"

definition found :: "string \<Rightarrow> json" where
  "found i = JObj [(''search'', JArr [JObj [(''id'', JStr i)]])]"

text \<open>Five networks: one that answers every request; one that answers all but the
  label lookup for the field \<open>Materiale\<close>; one where only the artist search answers;
  one whose answers are not JSON; and one that answers every request with an error
  document, which has no \<open>search\<close> field.\<close>

definition wikidata :: network where
  "wikidata site url =
     (case site of
        ArtistSearch \<Rightarrow> Json (found ''Q5'')
      | ArtistEntity \<Rightarrow> Json (JObj [(''entities'', JObj [(''Q5'', penone)])])
      | ArtistField f \<Rightarrow> Json (labelled ''Q1'' ''Garessio'')
      | WorkSearch \<Rightarrow> Json (found ''Q9'')
      | WorkEntity \<Rightarrow> Json (JObj [(''entities'', JObj [(''Q9'', albero)])])
      | WorkField f \<Rightarrow> Json (labelled ''Q2'' ''bronzo''))"

definition wikidata_flaky :: network where
  "wikidata_flaky site url =
     (if site = WorkField ''Materiale'' then FetchFailed else wikidata site url)"

definition entity_down :: network where
  "entity_down site url =
     (case site of ArtistSearch \<Rightarrow> Json (found ''Q5'') | _ \<Rightarrow> FetchFailed)"

definition garbled :: network where
  "garbled site url = BadJson"

definition search_refused :: network where
  "search_refused site url = Json (JObj [(''error'', JStr ''badvalue'')])"

text \<open>\<open>sends m L\<close>: whatever the world, \<open>m\<close> only appends to the list of requests, and the
  places it sends from form a subsequence of \<open>L\<close>.\<close>

definition sends :: "'a comp \<Rightarrow> site list \<Rightarrow> bool" where
  "sends m L = (\<forall>w. \<exists>rs. requests (snd (m w)) = requests w @ rs \<and> subseq (map fst rs) L)"

text \<open>The elements that the program writes, and those among them whose content it
  replaces.\<close>

definition page_ids :: "string list" where
  "page_ids =
     [''projectTitle'', ''projectArtist'', ''projectYear'', ''artistWikidata'',
      ''workWikidata'', ''viewOnWikidata'', ''loadingSpinner'', ''projectContent'']"

definition content_ids :: "string list" where
  "content_ids =
     [''projectTitle'', ''projectArtist'', ''projectYear'', ''artistWikidata'',
      ''workWikidata'', ''projectContent'']"

text \<open>\<open>frame w w'\<close>: from \<open>w\<close> to \<open>w'\<close> the tree of the page is the same, the properties of
  every element that is not among the eight are the same, and so is the set of the
  removed elements as far as they do not lie inside an element whose content the
  program replaces. \<open>writes_page m\<close>: \<open>m\<close> keeps to this frame, whatever the world.\<close>

definition frame :: "world \<Rightarrow> world \<Rightarrow> bool" where
  "frame w w' =
     (inside w' = inside w
      \<and> (\<forall>i. i \<notin> set page_ids \<longrightarrow> elems w' i = elems w i)
      \<and> (\<forall>i. (\<forall>c\<in>set content_ids. \<not> inside w i c) \<longrightarrow> removed w' i = removed w i))"




text \<open>The places of the program that send a request, in the order of the program text,
  and those among them that belong to the two search-then-fetch flows.\<close>

definition request_sites :: "site list" where
  "request_sites =
     [ArtistSearch, ArtistEntity,
      ArtistField ''Data di nascita'', ArtistField ''Luogo di nascita'',
      ArtistField nazionalita, ArtistField ''Movimento artistico'',
      WorkSearch, WorkEntity,
      WorkField ''Data di creazione'', WorkField ''Tecnica'', WorkField ''Materiale'',
      WorkField ''Dimensioni'', WorkField ''Genere'']"

fun is_flow_site :: "site \<Rightarrow> bool" where
  "is_flow_site (ArtistField f) = False"
| "is_flow_site (WorkField f) = False"
| "is_flow_site s = True"

text \<open>The data objects that the sample documents give.\<close>

definition penone_data :: "(string \<times> json) list" where
  "penone_data =
     [(''Nome'', JStr ''Giuseppe Penone''),
      (''Descrizione'', JStr ''artista italiano''),
      (''Data di nascita'', JStr ''1947''),
      (''Luogo di nascita'', JStr ''Garessio''),
      (nazionalita, JStr ''Non specificato''),
      (''Movimento artistico'', JStr ''Non specificato'')]"

definition albero_data :: "string \<Rightarrow> (string \<times> json) list" where
  "albero_data materiale =
     [(''Titolo'', JStr ''Albero della Vita''),
      (''Descrizione'', JStr ''Descrizione non disponibile''),
      (''Data di creazione'', JStr ''Non specificato''),
      (''Tecnica'', JStr ''bronzo''),
      (''Materiale'', JStr materiale),
      (''Dimensioni'', JStr ''Non specificato''),
      (''Genere'', JStr ''Non specificato'')]"

text \<open>\<open>reads_net m\<close>: what \<open>m\<close> returns depends on the network only, not on the world it
  starts in.\<close>

definition reads_net :: "'a comp \<Rightarrow> bool" where
  "reads_net m = (\<forall>w w'. fst (m w) = fst (m w'))"

text \<open>The keys of the data object of a work, in the order of the object literal.\<close>

definition work_keys :: "string list" where
  "work_keys =
     [''Titolo'', ''Descrizione'', ''Data di creazione'', ''Tecnica'', ''Materiale'',
      ''Dimensioni'', ''Genere'']"

section \<open>Properties\<close>

subsection \<open>Extraction of labels, descriptions and property values\<close>

lemma then_e_simps [simp]:
  "then_e (Inl e) f = Inl e"
  "then_e (Inr v) f = f v"
  by (simp_all add: then_e_def)

lemma show_nat_0: "show_nat 0 = ''0''"
  by (simp add: show_nat.simps digit_char_def)

lemma key_index_0: "0 < n \<Longrightarrow> key_index ''0'' n = Some 0"
  by (cases n) (simp_all add: key_index_def upt_rec show_nat_0)

lemma key_index_0_Suc [simp]: "key_index ''0'' (Suc n) = Some 0"
  by (simp add: key_index_0)

lemma js_get_first [simp]: "js_get (JArr (x # xs)) ''0'' = Inr x"
  by (simp add: key_index_0)

text \<open>No prototype has a member under one of the names that the program reads from a
  document, but for \<open>length\<close> and for \<open>search\<close>, which is a method of the strings; nor
  has \<open>Object.prototype\<close> one under the language codes and the ids of the sample
  documents.\<close>

lemmas members_defs =
  object_members_def array_members_def string_members_def number_members_def
  boolean_members_def function_members_def native_def

lemma inherited_fields_all:
  "list_all (\<lambda>P. list_all (\<lambda>k. inherited P k = Inr JUndefined)
      [''labels'', ''descriptions'', ''claims'', ''mainsnak'', ''datavalue'', ''value'', ''id'',
       ''text'', ''amount'', ''time'', ''entities'', ''0''])
      [Object_prototype, Array_prototype, String_prototype, Number_prototype,
       Boolean_prototype, Function_prototype]"
  by code_simp

lemma inherited_fixed:
  assumes "k \<in> set [''labels'', ''descriptions'', ''claims'', ''mainsnak'', ''datavalue'',
       ''value'', ''id'', ''text'', ''amount'', ''time'', ''entities'', ''0'']"
  shows "inherited P k = Inr JUndefined"
proof -
  have "P \<in> set [Object_prototype, Array_prototype, String_prototype, Number_prototype,
       Boolean_prototype, Function_prototype]"
    by (cases P) simp_all
  with assms inherited_fields_all show ?thesis
    unfolding list_all_iff by blast
qed

lemma inherited_fields [simp]:
  "inherited P ''labels'' = Inr JUndefined"
  "inherited P ''descriptions'' = Inr JUndefined"
  "inherited P ''claims'' = Inr JUndefined"
  "inherited P ''mainsnak'' = Inr JUndefined"
  "inherited P ''datavalue'' = Inr JUndefined"
  "inherited P ''value'' = Inr JUndefined"
  "inherited P ''id'' = Inr JUndefined"
  "inherited P ''text'' = Inr JUndefined"
  "inherited P ''amount'' = Inr JUndefined"
  "inherited P ''time'' = Inr JUndefined"
  "inherited P ''entities'' = Inr JUndefined"
  "inherited P ''0'' = Inr JUndefined"
  by (rule inherited_fixed, simp)+

lemma inherited_search_all:
  "inherited String_prototype ''search'' = Inr (JFunction ''search'' 1)"
  "list_all (\<lambda>P. inherited P ''search'' = Inr JUndefined)
      [Object_prototype, Array_prototype, Number_prototype, Boolean_prototype,
       Function_prototype]"
  "list_all (\<lambda>P. inherited P ''length'' = Inr JUndefined)
      [Object_prototype, Number_prototype, Boolean_prototype]"
  by code_simp+

lemma inherited_search [simp]:
  "inherited P ''search'' = Inr (if P = String_prototype then JFunction ''search'' 1 else JUndefined)"
  using inherited_search_all by (cases P) simp_all

lemma inherited_length [simp]:
  "inherited Object_prototype ''length'' = Inr JUndefined"
  "inherited Number_prototype ''length'' = Inr JUndefined"
  "inherited Boolean_prototype ''length'' = Inr JUndefined"
  using inherited_search_all by simp_all

lemma not_inherited [simp]: "\<not> inherits P k \<Longrightarrow> inherited P k = Inr JUndefined"
  by (simp add: inherits_def)

text \<open>
  Claim C1, as amended. For an entity document (a JSON object): when the \<open>labels\<close> map
  of the document has an entry for the requested language, \<open>getLabel\<close> returns the
  \<open>value\<close> of that entry if the entry is not a false value, and the string
  \<open>Informazione non disponibile\<close> if it is; it returns that string also when the
  document has no \<open>labels\<close>, and when the map has no entry for the language and the
  language code is not the name of a member that every object inherits.
  \<open>getDescription\<close> does the same on \<open>descriptions\<close> with \<open>Descrizione non disponibile\<close>.
  \<open>getPropertyValue\<close> returns \<open>Non specificato\<close> when the document has no \<open>claims\<close>, when
  the map has no entry for the property id and the id is not the name of an inherited
  member, and when the first claim for it has a \<open>mainsnak\<close> without \<open>datavalue\<close>.
\<close>

theorem extraction_fallbacks:
  "(map_of kvs ''labels'' = Some (JObj lm) \<and> map_of lm lang = Some t
      \<longrightarrow> getLabel (JObj kvs) lang
            = (if truthy t then js_get t ''value'' else Inr (JStr ''Informazione non disponibile'')))
   \<and> (map_of kvs ''labels'' = None
        \<or> (map_of kvs ''labels'' = Some (JObj lm) \<and> map_of lm lang = None
            \<and> \<not> inherits Object_prototype lang)
      \<longrightarrow> getLabel (JObj kvs) lang = Inr (JStr ''Informazione non disponibile''))
   \<and> (map_of kvs ''descriptions'' = Some (JObj dm) \<and> map_of dm lang = Some d
      \<longrightarrow> getDescription (JObj kvs) lang
            = (if truthy d then js_get d ''value'' else Inr (JStr ''Descrizione non disponibile'')))
   \<and> (map_of kvs ''descriptions'' = None
        \<or> (map_of kvs ''descriptions'' = Some (JObj dm) \<and> map_of dm lang = None
            \<and> \<not> inherits Object_prototype lang)
      \<longrightarrow> getDescription (JObj kvs) lang = Inr (JStr ''Descrizione non disponibile''))
   \<and> (map_of kvs ''claims'' = None
        \<or> (map_of kvs ''claims'' = Some (JObj cm) \<and> map_of cm p = None
            \<and> \<not> inherits Object_prototype p)
      \<longrightarrow> getPropertyValue (JObj kvs) p lang = Inr (Plain (JStr ''Non specificato'')))
   \<and> (map_of kvs ''claims'' = Some (JObj cm) \<and> map_of cm p = Some (JArr (JObj c # cs))
        \<and> map_of c ''mainsnak'' = Some (JObj ms) \<and> map_of ms ''datavalue'' = None
      \<longrightarrow> getPropertyValue (JObj kvs) p lang = Inr (Plain (JStr ''Non specificato'')))"
  by (auto simp: getLabel_def getDescription_def getPropertyValue_def)

lemma inherited_sample_all:
  "list_all (\<lambda>k. inherited Object_prototype k = Inr JUndefined)
     [''it'', ''en'', ''P569'', ''P19'', ''P27'', ''P135'', ''P571'', ''P186'', ''P2049'',
      ''P136'', ''Q1'', ''Q2'', ''Q5'', ''Q9'']"
  by code_simp

lemma inherited_sample [simp]:
  "k \<in> set [''it'', ''en'', ''P569'', ''P19'', ''P27'', ''P135'', ''P571'', ''P186'', ''P2049'',
      ''P136'', ''Q1'', ''Q2'', ''Q5'', ''Q9'']
   \<Longrightarrow> inherited Object_prototype k = Inr JUndefined"
  using inherited_sample_all unfolding list_all_iff by blast

lemma inherits_sample:
  "\<not> inherits Object_prototype ''en''" "\<not> inherits Object_prototype ''it''"
  "\<not> inherits Object_prototype ''P135''"
  by (simp_all add: inherits_def)

text \<open>The statement on the document \<open>penone\<close>: Italian is there, English is not, there is
  no claim for P135 and the claim for P27 has no value.\<close>

theorem extraction_fallbacks_witness:
  "getLabel penone ''it'' = Inr (JStr ''Giuseppe Penone'')
   \<and> getLabel penone ''en'' = Inr (JStr ''Informazione non disponibile'')
   \<and> getDescription penone ''it'' = Inr (JStr ''artista italiano'')
   \<and> getDescription penone ''en'' = Inr (JStr ''Descrizione non disponibile'')
   \<and> getPropertyValue penone ''P135'' ''en'' = Inr (Plain (JStr ''Non specificato''))
   \<and> getPropertyValue penone ''P27'' ''it'' = Inr (Plain (JStr ''Non specificato''))"
proof -
  have f: "map_of penone_fields ''labels'' = Some (JObj penone_labels)"
    "map_of penone_fields ''descriptions'' = Some (JObj penone_descriptions)"
    "map_of penone_fields ''claims'' = Some (JObj penone_claims)"
    by (simp_all add: penone_fields_def)
  have it: "map_of penone_labels ''it''
              = Some (JObj [(''language'', JStr ''it''), (''value'', JStr ''Giuseppe Penone'')])"
    "map_of penone_descriptions ''it''
       = Some (JObj [(''language'', JStr ''it''), (''value'', JStr ''artista italiano'')])"
    and en: "map_of penone_labels ''en'' = None" "map_of penone_descriptions ''en'' = None"
    by (simp_all add: penone_labels_def penone_descriptions_def)
  have p: "map_of penone_claims ''P135'' = None"
    "map_of penone_claims ''P27''
       = Some (JArr [JObj [(''mainsnak'', JObj [(''snaktype'', JStr ''novalue'')])]])"
    by (simp_all add: penone_claims_def)
  show ?thesis
    using extraction_fallbacks [where kvs = penone_fields and lang = "''it''"
            and lm = penone_labels and dm = penone_descriptions and cm = penone_claims
            and t = "JObj [(''language'', JStr ''it''), (''value'', JStr ''Giuseppe Penone'')]"
            and d = "JObj [(''language'', JStr ''it''), (''value'', JStr ''artista italiano'')]"
            and p = "''P27''" and cs = "[]"
            and c = "[(''mainsnak'', JObj [(''snaktype'', JStr ''novalue'')])]"
            and ms = "[(''snaktype'', JStr ''novalue'')]"]
          extraction_fallbacks [where kvs = penone_fields and lang = "''en''"
            and lm = penone_labels and dm = penone_descriptions and cm = penone_claims
            and p = "''P135''"]
    by (simp add: penone_def f it en p inherits_sample)
qed

text \<open>
  Claim C1 as it was stated fails on four documents. An empty \<open>labels\<close> map does not
  contain \<open>constructor\<close>, and for this language \<open>getLabel\<close> returns \<open>undefined\<close>: the map
  inherits a function of that name, which has no \<open>value\<close>. An empty \<open>claims\<close> map lacks
  the property id \<open>constructor\<close>, and \<open>getPropertyValue\<close> raises \<open>TypeError\<close>: the
  function has no index 0, and \<open>mainsnak\<close> is read from \<open>undefined\<close>. A first claim that
  is the empty object has no \<open>datavalue\<close>, and \<open>getPropertyValue\<close> raises \<open>TypeError\<close>
  again, for it has no \<open>mainsnak\<close> either. A \<open>labels\<close> map whose entry for Italian is
  \<open>null\<close> contains the language, and \<open>getLabel\<close> returns the fallback string.
\<close>

theorem inherited_member_counterexample:
  "map_of ([] :: (string \<times> json) list) ''constructor'' = None
   \<and> getLabel (JObj [(''labels'', JObj [])]) ''constructor'' = Inr JUndefined
   \<and> getPropertyValue (JObj [(''claims'', JObj [])]) ''constructor'' ''it'' = Inl TypeError
   \<and> map_of ([] :: (string \<times> json) list) ''datavalue'' = None
   \<and> getPropertyValue (JObj [(''claims'', JObj [(''P19'', JArr [JObj []])])]) ''P19'' ''it''
       = Inl TypeError
   \<and> getLabel (JObj [(''labels'', JObj [(''it'', JNull)])]) ''it''
       = Inr (JStr ''Informazione non disponibile'')"
  by (simp add: getLabel_def getPropertyValue_def inherited_def members_defs)

text \<open>Nothing that is inherited has an index 0. So a read of index 0 that yields
  something defined was a read of a true value, and a property in which such a read
  succeeds is a property of a true value.\<close>

lemma members_no_index:
  "list_all (\<lambda>kv. js_get (snd kv) ''0'' = Inr JUndefined) (members P)"
  by (cases P; simp add: members_defs key_index_def)

lemma member_no_index:
  "map_of (members P) k = Some v \<Longrightarrow> js_get v ''0'' = Inr JUndefined"
  using members_no_index [of P] by (auto simp: list_all_iff dest!: map_of_SomeD)

lemma inherited_no_index:
  assumes "inherited P k = Inr v"
  shows "js_get v ''0'' = Inr JUndefined \<or> v = JUndefined"
proof (cases "k = ''__proto__''")
  case True
  with assms have "v = JPrototype P" by (simp add: inherited_def)
  then show ?thesis by simp
next
  case False
  show ?thesis
  proof (cases "map_of (members P) k")
    case (Some u)
    with assms False have "v = u" by (auto simp: inherited_def split: if_splits)
    with Some show ?thesis by (simp add: member_no_index)
  next
    case None
    show ?thesis
    proof (cases "map_of object_members k")
      case (Some u)
      with assms False None have "v = u" by (auto simp: inherited_def split: if_splits)
      with Some member_no_index [of Object_prototype k u] show ?thesis by simp
    next
      case n: None
      with assms False None show ?thesis by (auto simp: inherited_def split: if_splits)
    qed
  qed
qed

lemma js_get_0_defined: "js_get l ''0'' = Inr c \<Longrightarrow> c \<noteq> JUndefined \<Longrightarrow> truthy l"
  by (cases l) (auto simp: key_index_def split: if_splits option.splits)

lemma js_get_indexed:
  assumes "js_get v k = Inr l" and "js_get l ''0'' = Inr c" and "c \<noteq> JUndefined"
  shows "truthy v"
proof (rule ccontr)
  assume f: "\<not> truthy v"
  have inh: False if "inherited P k = Inr l" for P
    using inherited_no_index [OF that] assms(2,3) by auto
  show False
  proof (cases v)
    case (JBool b)
    with assms(1) show ?thesis by (auto intro: inh)
  next
    case (JNum n)
    with assms(1) show ?thesis by (auto intro: inh)
  next
    case (JStr s)
    with f have "s = []" by simp
    with JStr assms(1) have "l = JNum 0 \<or> inherited String_prototype k = Inr l"
      by (auto simp: key_index_def split: if_splits)
    with assms(2,3) show ?thesis by (auto intro: inh)
  qed (use f assms(1) in simp_all)
qed

lemma then_e_Inr: "then_e r f = Inr y \<Longrightarrow> \<exists>v. r = Inr v \<and> f v = Inr y"
  by (cases r) simp_all

lemma getPropertyValue_first_claim:
  assumes "first_claim e p = Inr c" and "c \<noteq> JUndefined"
  shows "getPropertyValue e p lang = getPropertyValue (JObj [(''claims'', JObj [(p, JArr [c])])]) p lang"
proof -
  from assms(1) obtain claims where c1: "js_get e ''claims'' = Inr claims"
    and r1: "then_e (js_get claims p) (\<lambda>list. js_get list ''0'') = Inr c"
    unfolding first_claim_def by (blast dest: then_e_Inr)
  from r1 obtain l where c2: "js_get claims p = Inr l" and c3: "js_get l ''0'' = Inr c"
    by (blast dest: then_e_Inr)
  have t2: "truthy l" using c3 assms(2) by (rule js_get_0_defined)
  have t1: "truthy claims" using c2 c3 assms(2) by (rule js_get_indexed)
  show ?thesis
    by (simp add: getPropertyValue_def c1 c2 c3 t1 t2)
qed

text \<open>
  Claim C9. \<open>getPropertyValue\<close> depends on the first claim of the property only: for two
  entity documents whose entries \<^verbatim>\<open>claims[propertyId][0]\<close> exist and are equal it returns
  the same result, a plain value or the pending label lookup of the same id.
\<close>

theorem getPropertyValue_first_claim_only:
  "first_claim e1 p = Inr c \<Longrightarrow> first_claim e2 p = Inr c \<Longrightarrow> c \<noteq> JUndefined
   \<Longrightarrow> getPropertyValue e1 p lang = getPropertyValue e2 p lang"
  by (simp add: getPropertyValue_first_claim)

text \<open>Two documents that share their first claim for P19 and differ in everything else.\<close>

theorem getPropertyValue_first_claim_only_witness:
  "first_claim penone ''P19'' = first_claim two_claims ''P19''
   \<and> getPropertyValue penone ''P19'' ''it'' = getPropertyValue two_claims ''P19'' ''it''"
proof -
  let ?c = "JObj [(''mainsnak'', JObj [(''datavalue'', JObj [(''value'', JObj [(''id'', JStr ''Q1'')])])])]"
  have 1: "first_claim penone ''P19'' = Inr ?c"
    by (simp add: first_claim_def penone_def penone_fields_def penone_claims_def)
  have 2: "first_claim two_claims ''P19'' = Inr ?c"
    by (simp add: first_claim_def two_claims_def)
  have 3: "?c \<noteq> JUndefined" by simp
  show ?thesis
    using getPropertyValue_first_claim_only [OF 1 2 3, of "''it''"] 1 2 by simp
qed

subsection \<open>Dates\<close>

text \<open>The search of the regular expression finds the leftmost position where the pattern
  occurs.\<close>

lemma date_at_drop:
  assumes "i \<le> length s"
  shows "date_at (drop i s) = (if matches_at s i then Some (take 4 (drop (Suc i) s)) else None)"
proof (cases "i + 11 \<le> length s")
  case False
  with assms have "\<not> 11 \<le> length s - i" by arith
  with False show ?thesis by (simp add: date_at_def matches_at_def)
next
  case True
  then have len: "11 \<le> length s - i" by arith
  from True have d4: "list_all is_digit (take 4 (drop 1 (drop i s))) = (\<forall>k<4. is_digit (s ! (i + 1 + k)))"
    and d2: "list_all is_digit (take 2 (drop 6 (drop i s))) = (\<forall>k<2. is_digit (s ! (i + 6 + k)))"
    and d2': "list_all is_digit (take 2 (drop 9 (drop i s))) = (\<forall>k<2. is_digit (s ! (i + 9 + k)))"
    by (simp_all add: list_all_length add.commute add.left_commute)
  from True have n: "drop i s ! 0 = s ! i" "drop i s ! 5 = s ! (i + 5)" "drop i s ! 8 = s ! (i + 8)"
    by simp_all
  have "date_at (drop i s) = (if matches_at s i then Some (take 4 (drop 1 (drop i s))) else None)"
    unfolding date_at_def matches_at_def d4 d2 d2' n
    using True len by simp
  then show ?thesis by simp
qed

lemma date_search_skip:
  "i \<le> length s \<Longrightarrow> (\<forall>j<i. \<not> matches_at s j) \<Longrightarrow> date_search s = date_search (drop i s)"
proof (induction i)
  case 0
  then show ?case by simp
next
  case (Suc i)
  then have IH: "date_search s = date_search (drop i s)" and lt: "i < length s"
    and no: "\<not> matches_at s i"
    by simp_all
  have "date_at (drop i s) = None"
    using date_at_drop [of i s] lt no by simp
  moreover have "drop i s = s ! i # drop (Suc i) s"
    using lt by (simp add: Cons_nth_drop_Suc)
  ultimately have "date_search (drop i s) = date_search (drop (Suc i) s)"
    by (metis date_search.simps(2) option.simps(4))
  with IH show ?case by simp
qed

lemma date_search_match:
  assumes "matches_at s i" and "\<forall>j<i. \<not> matches_at s j"
  shows "date_search s = Some (take 4 (drop (Suc i) s))"
proof -
  from assms(1) have lt: "i < length s" by (simp add: matches_at_def)
  have "date_search s = date_search (drop i s)"
    using date_search_skip [of i s] lt assms(2) by simp
  moreover have "drop i s = s ! i # drop (Suc i) s"
    using lt by (simp add: Cons_nth_drop_Suc)
  moreover have "date_at (drop i s) = Some (take 4 (drop (Suc i) s))"
    using date_at_drop [of i s] lt assms(1) by simp
  ultimately show ?thesis
    by (metis date_search.simps(2) option.simps(5))
qed

lemma date_search_none:
  assumes "\<forall>i. \<not> matches_at s i"
  shows "date_search s = None"
  using date_search_skip [of "length s" s] assms by simp

text \<open>
  Claim C5. A string matches the pattern when the pattern occurs in it, since
  \<^verbatim>\<open>String.prototype.match\<close> searches the string. For a string in which the pattern
  occurs, \<open>formatWikidataDate\<close> returns the four digits that follow the plus sign of the
  leftmost occurrence; for \<open>null\<close>, \<open>undefined\<close> and the empty string it returns
  \<open>Data non disponibile\<close>; every other non-empty string is returned as it is.
\<close>

theorem formatWikidataDate_cases:
  "(matches_at s i \<and> (\<forall>j<i. \<not> matches_at s j)
      \<longrightarrow> formatWikidataDate (Plain (JStr s)) = Inr (JStr (take 4 (drop (Suc i) s))))
   \<and> ((\<exists>i. matches_at s i)
      \<longrightarrow> (\<exists>y. formatWikidataDate (Plain (JStr s)) = Inr (JStr y)
               \<and> length y = 4 \<and> list_all is_digit y))
   \<and> ((\<forall>i. \<not> matches_at s i) \<and> s \<noteq> []
      \<longrightarrow> formatWikidataDate (Plain (JStr s)) = Inr (JStr s))
   \<and> formatWikidataDate (Plain JNull) = Inr (JStr ''Data non disponibile'')
   \<and> formatWikidataDate (Plain JUndefined) = Inr (JStr ''Data non disponibile'')
   \<and> formatWikidataDate (Plain (JStr [])) = Inr (JStr ''Data non disponibile'')"
proof -
  have "formatWikidataDate (Plain (JStr s)) = Inr (JStr (take 4 (drop (Suc i) s)))"
    if "matches_at s i" "\<forall>j<i. \<not> matches_at s j"
  proof -
    from that(1) have "s \<noteq> []" by (auto simp: matches_at_def)
    then show ?thesis by (simp add: date_search_match [OF that])
  qed
  note first = this
  have "\<exists>y. formatWikidataDate (Plain (JStr s)) = Inr (JStr y)
            \<and> length y = 4 \<and> list_all is_digit y"
    if "\<exists>i. matches_at s i"
  proof -
    define k where "k = (LEAST i. matches_at s i)"
    from that have m: "matches_at s k" unfolding k_def by (blast intro: LeastI)
    have "\<forall>j<k. \<not> matches_at s j" unfolding k_def by (blast dest: not_less_Least)
    with m have "formatWikidataDate (Plain (JStr s)) = Inr (JStr (take 4 (drop (Suc k) s)))"
      using date_search_match [of s k] by (auto simp: matches_at_def)
    moreover from m have "length (take 4 (drop (Suc k) s)) = 4"
      and "list_all is_digit (take 4 (drop (Suc k) s))"
      by (auto simp: matches_at_def list_all_length)
    ultimately show ?thesis by blast
  qed
  moreover have "formatWikidataDate (Plain (JStr s)) = Inr (JStr s)"
    if "\<forall>i. \<not> matches_at s i" "s \<noteq> []"
    using that by (simp add: date_search_none)
  ultimately show ?thesis using first by simp
qed

text \<open>The occurrence of the pattern in a form that computes on a given string.\<close>

lemma matches_at_eval:
  "matches_at s i =
     (i + 11 \<le> length s \<and> s ! i = CHR ''+''
      \<and> list_all is_digit (take 4 (drop (i + 1) s)) \<and> s ! (i + 5) = CHR ''-''
      \<and> list_all is_digit (take 2 (drop (i + 6) s)) \<and> s ! (i + 8) = CHR ''-''
      \<and> list_all is_digit (take 2 (drop (i + 9) s)))"
  by (auto simp: matches_at_def list_all_length)

text \<open>The statement on a date as Wikidata writes it, and on a string without a date.\<close>

theorem formatWikidataDate_cases_witness:
  "formatWikidataDate (Plain (JStr ''+1962-00-00T00:00:00Z'')) = Inr (JStr ''1962'')
   \<and> formatWikidataDate (Plain (JStr ''XX secolo'')) = Inr (JStr ''XX secolo'')"
proof -
  have m: "matches_at ''+1962-00-00T00:00:00Z'' 0"
    by (simp add: matches_at_eval is_digit_def)
  have n: "\<forall>i. \<not> matches_at ''XX secolo'' i"
    by (simp add: matches_at_def)
  show ?thesis
    using formatWikidataDate_cases [of "''+1962-00-00T00:00:00Z''" 0]
      formatWikidataDate_cases [of "''XX secolo''"] m n
    by simp
qed

subsection \<open>Query parameters\<close>

text \<open>
  Claim C7, as amended. The controller reads the query parameters \<open>artist\<close>, \<open>work\<close> and
  \<open>year\<close>; a parameter that is absent, and also one that is present with the empty
  string as its value, gives the default (\<open>Giuseppe Penone\<close>, \<open>Albero della Vita\<close>, \<open>1962\<close>);
  a parameter that is present with a non-empty value gives that value.
\<close>

theorem query_parameter_defaults:
  "artistName (new_app ps)
     = (case params_get ps ''artist'' of None \<Rightarrow> ''Giuseppe Penone''
        | Some v \<Rightarrow> if v = [] then ''Giuseppe Penone'' else v)
   \<and> workName (new_app ps)
     = (case params_get ps ''work'' of None \<Rightarrow> ''Albero della Vita''
        | Some v \<Rightarrow> if v = [] then ''Albero della Vita'' else v)
   \<and> year (new_app ps)
     = (case params_get ps ''year'' of None \<Rightarrow> ''1962''
        | Some v \<Rightarrow> if v = [] then ''1962'' else v)"
  by (simp add: new_app_def or_default_def)

text \<open>A query with a work, an empty year and no artist.\<close>

theorem query_parameter_defaults_witness:
  "artistName (new_app [(''work'', ''Idee di pietra''), (''year'', [])]) = ''Giuseppe Penone''
   \<and> workName (new_app [(''work'', ''Idee di pietra''), (''year'', [])]) = ''Idee di pietra''
   \<and> year (new_app [(''work'', ''Idee di pietra''), (''year'', [])]) = ''1962''"
  using query_parameter_defaults [of "[(''work'', ''Idee di pietra''), (''year'', [])]"]
  by (simp add: params_get_def)

text \<open>Claim C7 as it was stated fails on the query \<^verbatim>\<open>?artist=\<close>: the parameter is present,
  its value is the empty string, and the name used is the default.\<close>

theorem empty_parameter_counterexample:
  "params_get [(''artist'', [])] ''artist'' = Some []
   \<and> artistName (new_app [(''artist'', [])]) = ''Giuseppe Penone''"
  by (simp add: params_get_def new_app_def or_default_def)

lemmas comp_defs =
  ret_def lift_def bind_def seq_def try_catch_def detach_def console_error_def set_prop_def
  set_title_def fetch_json_def

subsection \<open>Failures of the network\<close>

text \<open>
  Claim C4. When \<^verbatim>\<open>fetch\<close> fails or the response is not JSON, \<open>searchEntities\<close> returns the
  empty array and \<open>getEntity\<close> returns \<open>null\<close>; the request was sent once, the error is
  logged to the console once, and nothing else changes. Neither function throws,
  whatever the network does.
\<close>

theorem failures_caught:
  "(net site (search_url q lang) = FetchFailed \<longrightarrow>
      searchEntities net site q lang w =
        (Inr (JArr []),
         w\<lparr>requests := requests w @ [(site, search_url q lang)],
           console := console w @ [(''Error searching Wikidata:'', NetworkError)]\<rparr>))
   \<and> (net site (search_url q lang) = BadJson \<longrightarrow>
      searchEntities net site q lang w =
        (Inr (JArr []),
         w\<lparr>requests := requests w @ [(site, search_url q lang)],
           console := console w @ [(''Error searching Wikidata:'', SyntaxError)]\<rparr>))
   \<and> (net site (entity_url i) = FetchFailed \<longrightarrow>
      getEntity net site i w =
        (Inr JNull,
         w\<lparr>requests := requests w @ [(site, entity_url i)],
           console := console w @ [(''Error fetching Wikidata entity:'', NetworkError)]\<rparr>))
   \<and> (net site (entity_url i) = BadJson \<longrightarrow>
      getEntity net site i w =
        (Inr JNull,
         w\<lparr>requests := requests w @ [(site, entity_url i)],
           console := console w @ [(''Error fetching Wikidata entity:'', SyntaxError)]\<rparr>))
   \<and> (\<exists>v. fst (searchEntities net site q lang w) = Inr v)
   \<and> (\<exists>v. fst (getEntity net site i w) = Inr v)"
  by (auto simp: searchEntities_def getEntity_def comp_defs Let_def
           split: response.splits sum.splits prod.splits)

text \<open>Both functions on a network that is down and on one that answers garbage.\<close>

theorem failures_caught_witness:
  "searchEntities entity_down WorkSearch ''Albero'' ''it'' page0 =
     (Inr (JArr []),
      page0\<lparr>requests := [(WorkSearch, search_url ''Albero'' ''it'')],
            console := [(''Error searching Wikidata:'', NetworkError)]\<rparr>)
   \<and> getEntity entity_down ArtistEntity (JStr ''Q5'') page0 =
     (Inr JNull,
      page0\<lparr>requests := [(ArtistEntity, entity_url (JStr ''Q5''))],
            console := [(''Error fetching Wikidata entity:'', NetworkError)]\<rparr>)
   \<and> searchEntities garbled WorkSearch ''Albero'' ''it'' page0 =
     (Inr (JArr []),
      page0\<lparr>requests := [(WorkSearch, search_url ''Albero'' ''it'')],
            console := [(''Error searching Wikidata:'', SyntaxError)]\<rparr>)
   \<and> getEntity garbled ArtistEntity (JStr ''Q5'') page0 =
     (Inr JNull,
      page0\<lparr>requests := [(ArtistEntity, entity_url (JStr ''Q5''))],
            console := [(''Error fetching Wikidata entity:'', SyntaxError)]\<rparr>)"
proof -
  have "entity_down WorkSearch (search_url ''Albero'' ''it'') = FetchFailed"
    and "entity_down ArtistEntity (entity_url (JStr ''Q5'')) = FetchFailed"
    and "garbled WorkSearch (search_url ''Albero'' ''it'') = BadJson"
    and "garbled ArtistEntity (entity_url (JStr ''Q5'')) = BadJson"
    by (simp_all add: entity_down_def garbled_def)
  moreover have "requests page0 = []" "console page0 = []"
    by (simp_all add: page0_def)
  ultimately show ?thesis
    using failures_caught [where net = entity_down and site = WorkSearch and q = "''Albero''"
            and lang = "''it''" and w = page0]
      failures_caught [where net = entity_down and site = ArtistEntity and i = "JStr ''Q5''"
            and w = page0]
      failures_caught [where net = garbled and site = WorkSearch and q = "''Albero''"
            and lang = "''it''" and w = page0]
      failures_caught [where net = garbled and site = ArtistEntity and i = "JStr ''Q5''"
            and w = page0]
    by simp
qed

subsection \<open>The requests of a page load\<close>

text \<open>How \<open>sends\<close> goes through the constructs of a computation, and then through the
  functions of the program.\<close>

lemma sends_weaken: "sends m L \<Longrightarrow> subseq L L' \<Longrightarrow> sends m L'"
  unfolding sends_def by (meson subseq_order.trans)

lemma sends_silent:
  "sends (ret v) []" "sends (lift r) []" "sends (console_error msg e) []"
  "sends (set_prop i p x) []" "sends (set_title t) []"
  by (simp_all add: sends_def comp_defs)

lemma sends_fetch_json: "sends (fetch_json net site url) [site]"
  by (simp add: sends_def fetch_json_def Let_def split: response.splits)

lemma sends_bind:
  assumes "sends m L1" and "\<And>v. sends (f v) L2"
  shows "sends (bind m f) (L1 @ L2)"
  unfolding sends_def
proof
  fix w
  obtain r w1 where mw: "m w = (r, w1)" by (cases "m w")
  from assms(1) obtain rs1 where 1: "requests w1 = requests w @ rs1" "subseq (map fst rs1) L1"
    unfolding sends_def using mw by (metis snd_conv)
  show "\<exists>rs. requests (snd (bind m f w)) = requests w @ rs \<and> subseq (map fst rs) (L1 @ L2)"
  proof (cases r)
    case (Inl e)
    then have "snd (bind m f w) = w1" by (simp add: bind_def mw)
    with 1 show ?thesis by (auto intro: list_emb_prefix)
  next
    case (Inr v)
    then have b: "bind m f w = f v w1" by (simp add: bind_def mw)
    from assms(2) [of v] obtain rs2 where
      2: "requests (snd (f v w1)) = requests w1 @ rs2" "subseq (map fst rs2) L2"
      unfolding sends_def by blast
    have "subseq (map fst (rs1 @ rs2)) (L1 @ L2)"
      using 1(2) 2(2) by (simp add: list_emb_append_mono)
    with 1 2 b show ?thesis by (metis append.assoc)
  qed
qed

lemma sends_seq: "sends m L1 \<Longrightarrow> sends n L2 \<Longrightarrow> sends (seq m n) (L1 @ L2)"
  by (simp add: seq_def sends_bind)

lemma sends_try_catch:
  assumes "sends m L1" and "\<And>e. sends (h e) L2"
  shows "sends (try_catch m h) (L1 @ L2)"
  unfolding sends_def
proof
  fix w
  obtain r w1 where mw: "m w = (r, w1)" by (cases "m w")
  from assms(1) obtain rs1 where 1: "requests w1 = requests w @ rs1" "subseq (map fst rs1) L1"
    unfolding sends_def using mw by (metis snd_conv)
  show "\<exists>rs. requests (snd (try_catch m h w)) = requests w @ rs \<and> subseq (map fst rs) (L1 @ L2)"
  proof (cases r)
    case (Inr v)
    then have "snd (try_catch m h w) = w1" by (simp add: try_catch_def mw)
    with 1 show ?thesis by (auto intro: list_emb_prefix)
  next
    case (Inl e)
    then have b: "try_catch m h w = h e w1" by (simp add: try_catch_def mw)
    from assms(2) [of e] obtain rs2 where
      2: "requests (snd (h e w1)) = requests w1 @ rs2" "subseq (map fst rs2) L2"
      unfolding sends_def by blast
    have "subseq (map fst (rs1 @ rs2)) (L1 @ L2)"
      using 1(2) 2(2) by (simp add: list_emb_append_mono)
    with 1 2 b show ?thesis by (metis append.assoc)
  qed
qed

lemma sends_detach: "sends m L \<Longrightarrow> sends (detach m) L"
  unfolding sends_def detach_def
  by (auto split: prod.splits sum.splits) (metis snd_conv)+

lemma sends_if: "sends a L \<Longrightarrow> sends b L \<Longrightarrow> sends (if c then a else b) L"
  by simp

lemma sends_getEntity: "sends (getEntity net site i) [site]"
  unfolding getEntity_def
  using sends_try_catch [OF sends_bind [OF sends_fetch_json sends_silent(2)]
          sends_seq [OF sends_silent(3) sends_silent(1)]]
  by simp

lemma sends_searchEntities: "sends (searchEntities net site q l) [site]"
  unfolding searchEntities_def
  using sends_try_catch [OF sends_bind [OF sends_fetch_json sends_silent(2)]
          sends_seq [OF sends_silent(3) sends_silent(1)]]
  by simp

lemma sends_getEntityLabelById: "sends (getEntityLabelById net site i l) [site]"
  unfolding getEntityLabelById_def
  using sends_try_catch [OF sends_bind [OF sends_getEntity sends_silent(2)] sends_silent(1)]
  by simp

lemma sends_await_val: "sends (await_val net site pv) [site]"
  by (cases pv) (auto intro: sends_getEntityLabelById sends_weaken [OF sends_silent(1)])

lemma sends_property_field: "sends (property_field net site e p) [site]"
  unfolding property_field_def
  using sends_bind [OF sends_silent(2) sends_await_val] by simp

lemma sends_date_field: "sends (date_field net site e p) [site]"
  unfolding date_field_def unawaited_def
  using sends_bind [OF sends_silent(2)
          sends_seq [OF sends_seq [OF sends_await_val sends_silent(1)] sends_silent(2)]]
  by simp

lemma sends_collect_Cons:
  "sends (snd km) L1 \<Longrightarrow> sends (collect rest) L2 \<Longrightarrow> sends (collect (km # rest)) (L1 @ L2)"
  using sends_bind [OF _ sends_bind [OF _ sends_silent(1)], of "snd km" L1 "\<lambda>v. collect rest" L2]
  by simp

lemma sends_collect_Nil: "sends (collect []) []"
  by (simp add: sends_silent)

subsection \<open>Page loads on the sample networks\<close>

text \<open>The program on the network that answers everything, step by step and from any
  world.\<close>

lemma penone_values:
  "getLabel penone ''it'' = Inr (JStr ''Giuseppe Penone'')"
  "getDescription penone ''it'' = Inr (JStr ''artista italiano'')"
  "getPropertyValue penone ''P569'' ''it'' = Inr (Plain (JStr ''+1947-04-03T00:00:00Z''))"
  "getPropertyValue penone ''P19'' ''it'' = Inr (LabelPromise (JStr ''Q1'') ''it'')"
  "getPropertyValue penone ''P27'' ''it'' = Inr (Plain (JStr ''Non specificato''))"
  "getPropertyValue penone ''P135'' ''it'' = Inr (Plain (JStr ''Non specificato''))"
  by (simp_all add: getLabel_def getDescription_def getPropertyValue_def penone_def
        penone_fields_def penone_labels_def penone_descriptions_def penone_claims_def)

lemma albero_values:
  "getLabel albero ''it'' = Inr (JStr ''Albero della Vita'')"
  "getDescription albero ''it'' = Inr (JStr ''Descrizione non disponibile'')"
  "getPropertyValue albero ''P571'' ''it'' = Inr (Plain (JStr ''Non specificato''))"
  "getPropertyValue albero ''P186'' ''it'' = Inr (LabelPromise (JStr ''Q2'') ''it'')"
  "getPropertyValue albero ''P2049'' ''it'' = Inr (Plain (JStr ''Non specificato''))"
  "getPropertyValue albero ''P136'' ''it'' = Inr (Plain (JStr ''Non specificato''))"
  by (simp_all add: getLabel_def getDescription_def getPropertyValue_def albero_def)

lemma date_1947: "formatWikidataDate (Plain (JStr ''+1947-04-03T00:00:00Z'')) = Inr (JStr ''1947'')"
  by (simp add: date_at_def is_digit_def)

lemma date_none: "formatWikidataDate (Plain (JStr ''Non specificato'')) = Inr (JStr ''Non specificato'')"
  by (simp add: date_at_def)

lemma wikidata_search:
  "searchEntities wikidata ArtistSearch q l w =
     (Inr (JArr [JObj [(''id'', JStr ''Q5'')]]),
      w\<lparr>requests := requests w @ [(ArtistSearch, search_url q l)]\<rparr>)"
  "searchEntities wikidata WorkSearch q l w =
     (Inr (JArr [JObj [(''id'', JStr ''Q9'')]]),
      w\<lparr>requests := requests w @ [(WorkSearch, search_url q l)]\<rparr>)"
  by (simp_all add: searchEntities_def comp_defs wikidata_def found_def)

lemma wikidata_entity:
  "getEntity wikidata ArtistEntity (JStr ''Q5'') w =
     (Inr penone, w\<lparr>requests := requests w @ [(ArtistEntity, entity_url (JStr ''Q5''))]\<rparr>)"
  "getEntity wikidata WorkEntity (JStr ''Q9'') w =
     (Inr albero, w\<lparr>requests := requests w @ [(WorkEntity, entity_url (JStr ''Q9''))]\<rparr>)"
  by (simp_all add: getEntity_def comp_defs wikidata_def)

lemma wikidata_label:
  "getEntityLabelById wikidata (ArtistField f) (JStr ''Q1'') ''it'' w =
     (Inr (JStr ''Garessio''),
      w\<lparr>requests := requests w @ [(ArtistField f, entity_url (JStr ''Q1''))]\<rparr>)"
  "getEntityLabelById wikidata (WorkField f) (JStr ''Q2'') ''it'' w =
     (Inr (JStr ''bronzo''),
      w\<lparr>requests := requests w @ [(WorkField f, entity_url (JStr ''Q2''))]\<rparr>)"
  by (simp_all add: getEntityLabelById_def getEntity_def getLabel_def comp_defs wikidata_def
        labelled_def)

lemma wikidata_artistData:
  "artistData wikidata penone w =
     (Inr penone_data,
      w\<lparr>requests := requests w @ [(ArtistField ''Luogo di nascita'', entity_url (JStr ''Q1''))]\<rparr>)"
  by (simp add: artistData_def property_field_def date_field_def unawaited_def penone_values
        date_1947 wikidata_label penone_data_def ret_def lift_def bind_def seq_def
        del: formatWikidataDate.simps)

lemma wikidata_workData:
  "workData wikidata albero w =
     (Inr (albero_data ''bronzo''),
      w\<lparr>requests := requests w @
          [(WorkField ''Tecnica'', entity_url (JStr ''Q2'')),
           (WorkField ''Materiale'', entity_url (JStr ''Q2''))]\<rparr>)"
  by (simp add: workData_def property_field_def date_field_def unawaited_def albero_values
        date_none wikidata_label albero_data_def ret_def lift_def bind_def seq_def
        del: formatWikidataDate.simps)

lemma flaky_label:
  "getEntityLabelById wikidata_flaky (WorkField ''Tecnica'') (JStr ''Q2'') ''it'' w =
     (Inr (JStr ''bronzo''),
      w\<lparr>requests := requests w @ [(WorkField ''Tecnica'', entity_url (JStr ''Q2''))]\<rparr>)"
  "getEntityLabelById wikidata_flaky (WorkField ''Materiale'') (JStr ''Q2'') ''it'' w =
     (Inr (JStr ''Q2''),
      w\<lparr>requests := requests w @ [(WorkField ''Materiale'', entity_url (JStr ''Q2''))],
        console := console w @ [(''Error fetching Wikidata entity:'', NetworkError)]\<rparr>)"
  by (simp_all add: getEntityLabelById_def getEntity_def getLabel_def comp_defs wikidata_def
        wikidata_flaky_def labelled_def)

lemma flaky_workData:
  "fst (workData wikidata_flaky albero w) = Inr (albero_data ''Q2'')"
  by (simp add: workData_def property_field_def date_field_def unawaited_def albero_values
        date_none flaky_label albero_data_def ret_def lift_def bind_def seq_def
        del: formatWikidataDate.simps)

lemma wikidata_loadArtistData:
  "loadArtistData wikidata a w =
     (Inr (),
      w\<lparr>requests := requests w @
          [(ArtistSearch, search_url (artistName a) ''it''),
           (ArtistEntity, entity_url (JStr ''Q5'')),
           (ArtistField ''Luogo di nascita'', entity_url (JStr ''Q1''))],
        elems := (elems w)(''artistWikidata'' :=
          (elems w ''artistWikidata'')(InnerHTML := JStr (metadata_html penone_data))),
        removed := (\<lambda>c. removed w c \<or> inside w c ''artistWikidata'')\<rparr>)"
  by (simp add: loadArtistData_def displayArtistData_def renderMetadata_def first_id_def
        wikidata_search wikidata_entity wikidata_artistData js_gt0_def
        ret_def lift_def bind_def seq_def detach_def set_prop_def)

lemma wikidata_loadWorkData:
  "loadWorkData wikidata a w =
     (Inr (),
      w\<lparr>requests := requests w @
          [(WorkSearch, search_url (workName a @ '' '' @ artistName a) ''it''),
           (WorkEntity, entity_url (JStr ''Q9'')),
           (WorkField ''Tecnica'', entity_url (JStr ''Q2'')),
           (WorkField ''Materiale'', entity_url (JStr ''Q2''))],
        elems := (elems w)
          (''workWikidata'' :=
             (elems w ''workWikidata'')(InnerHTML := JStr (metadata_html (albero_data ''bronzo''))),
           ''viewOnWikidata'' :=
             (elems w ''viewOnWikidata'')
               (Href := JStr (wiki_page_url (JStr ''Q9'')), Disabled := JBool False)),
        removed := (\<lambda>c. removed w c \<or> inside w c ''workWikidata'')\<rparr>)"
  by (simp add: loadWorkData_def displayWorkData_def renderMetadata_def first_id_def
        wikidata_search wikidata_entity wikidata_workData js_gt0_def
        ret_def lift_def bind_def seq_def detach_def set_prop_def)

lemma wikidata_page_load:
  "requests (page_load ps wikidata w) =
     requests w @
       [(ArtistSearch, search_url (artistName (new_app ps)) ''it''),
        (ArtistEntity, entity_url (JStr ''Q5'')),
        (ArtistField ''Luogo di nascita'', entity_url (JStr ''Q1'')),
        (WorkSearch, search_url (workName (new_app ps) @ '' '' @ artistName (new_app ps)) ''it''),
        (WorkEntity, entity_url (JStr ''Q9'')),
        (WorkField ''Tecnica'', entity_url (JStr ''Q2'')),
        (WorkField ''Materiale'', entity_url (JStr ''Q2''))]"
  by (simp add: page_load_def init_def showLoading_def hideLoading_def showContent_def
        wikidata_loadArtistData wikidata_loadWorkData
        ret_def lift_def bind_def seq_def try_catch_def set_prop_def set_title_def)

lemma sends_bind_silent: "sends m [] \<Longrightarrow> (\<And>v. sends (f v) L) \<Longrightarrow> sends (bind m f) L"
  using sends_bind [of m "[]" f L] by simp

lemma sends_bind_Cons:
  "sends m [s] \<Longrightarrow> (\<And>v. sends (f v) L) \<Longrightarrow> sends (bind m f) (s # L)"
  using sends_bind [of m "[s]" f L] by simp

lemma subseq_set: "subseq xs ys \<Longrightarrow> set xs \<subseteq> set ys"
  by (auto simp: subseq_conv_nths dest: in_set_nthsD)

lemma subseq_distinct: "subseq xs ys \<Longrightarrow> distinct ys \<Longrightarrow> distinct xs"
  by (auto simp: subseq_conv_nths intro: distinct_nthsI)

lemma sends_artistData:
  "sends (artistData net artist)
     [ArtistField ''Data di nascita'', ArtistField ''Luogo di nascita'',
      ArtistField nazionalita, ArtistField ''Movimento artistico'']"
  unfolding artistData_def
  using sends_collect_Cons [OF _ sends_collect_Cons [OF _ sends_collect_Cons [OF _
          sends_collect_Cons [OF _ sends_collect_Cons [OF _ sends_collect_Cons [OF _
          sends_collect_Nil]]]]],
        of "(''Nome'', lift (getLabel artist ''it''))" "[]"
           "(''Descrizione'', lift (getDescription artist ''it''))" "[]"
           "(''Data di nascita'', date_field net (ArtistField ''Data di nascita'') artist ''P569'')"
           "[ArtistField ''Data di nascita'']"
           "(''Luogo di nascita'', property_field net (ArtistField ''Luogo di nascita'') artist ''P19'')"
           "[ArtistField ''Luogo di nascita'']"
           "(nazionalita, property_field net (ArtistField nazionalita) artist ''P27'')"
           "[ArtistField nazionalita]"
           "(''Movimento artistico'', property_field net (ArtistField ''Movimento artistico'') artist ''P135'')"
           "[ArtistField ''Movimento artistico'']"]
  by (simp add: sends_silent sends_date_field sends_property_field)

lemma sends_workData:
  "sends (workData net work)
     [WorkField ''Data di creazione'', WorkField ''Tecnica'', WorkField ''Materiale'',
      WorkField ''Dimensioni'', WorkField ''Genere'']"
  unfolding workData_def
  using sends_collect_Cons [OF _ sends_collect_Cons [OF _ sends_collect_Cons [OF _
          sends_collect_Cons [OF _ sends_collect_Cons [OF _ sends_collect_Cons [OF _
          sends_collect_Cons [OF _ sends_collect_Nil]]]]]],
        of "(''Titolo'', lift (getLabel work ''it''))" "[]"
           "(''Descrizione'', lift (getDescription work ''it''))" "[]"
           "(''Data di creazione'', date_field net (WorkField ''Data di creazione'') work ''P571'')"
           "[WorkField ''Data di creazione'']"
           "(''Tecnica'', property_field net (WorkField ''Tecnica'') work ''P186'')"
           "[WorkField ''Tecnica'']"
           "(''Materiale'', property_field net (WorkField ''Materiale'') work ''P186'')"
           "[WorkField ''Materiale'']"
           "(''Dimensioni'', property_field net (WorkField ''Dimensioni'') work ''P2049'')"
           "[WorkField ''Dimensioni'']"
           "(''Genere'', property_field net (WorkField ''Genere'') work ''P136'')"
           "[WorkField ''Genere'']"]
  by (simp add: sends_silent sends_date_field sends_property_field)

lemma sends_displayArtistData:
  "sends (displayArtistData net artist)
     [ArtistField ''Data di nascita'', ArtistField ''Luogo di nascita'',
      ArtistField nazionalita, ArtistField ''Movimento artistico'']"
  unfolding displayArtistData_def renderMetadata_def
  using sends_bind [OF sends_artistData sends_silent(4)] by simp

lemma sends_displayWorkData:
  "sends (displayWorkData net work)
     [WorkField ''Data di creazione'', WorkField ''Tecnica'', WorkField ''Materiale'',
      WorkField ''Dimensioni'', WorkField ''Genere'']"
  unfolding displayWorkData_def renderMetadata_def
  using sends_bind [OF sends_workData sends_silent(4)] by simp

lemma sends_loadArtistData:
  "sends (loadArtistData net a)
     [ArtistSearch, ArtistEntity,
      ArtistField ''Data di nascita'', ArtistField ''Luogo di nascita'',
      ArtistField nazionalita, ArtistField ''Movimento artistico'']"
proof -
  let ?F = "[ArtistField ''Data di nascita'', ArtistField ''Luogo di nascita'',
      ArtistField nazionalita, ArtistField ''Movimento artistico'']"
  have found: "sends (bind (lift (first_id rs)) (\<lambda>i.
                 bind (getEntity net ArtistEntity i) (\<lambda>artistEntity.
                   detach (displayArtistData net artistEntity)))) (ArtistEntity # ?F)" for rs
    using sends_bind [OF sends_silent(2) sends_bind [OF sends_getEntity
            sends_detach [OF sends_displayArtistData]]]
    by simp
  have none: "sends (displayNoArtistData a) (ArtistEntity # ?F)"
    unfolding displayNoArtistData_def
    by (rule sends_weaken [OF sends_silent(4)]) simp
  have "sends (bind (lift (js_get rs ''length'')) (\<lambda>len.
          if js_gt0 len then
            bind (lift (first_id rs)) (\<lambda>i.
            bind (getEntity net ArtistEntity i) (\<lambda>artistEntity.
              detach (displayArtistData net artistEntity)))
          else displayNoArtistData a)) (ArtistEntity # ?F)" for rs
    by (rule sends_bind_silent [OF sends_silent(2)], rule sends_if, rule found, rule none)
  then show ?thesis
    unfolding loadArtistData_def
    by (rule sends_bind_Cons [OF sends_searchEntities])
qed

lemma sends_loadWorkData:
  "sends (loadWorkData net a)
     [WorkSearch, WorkEntity,
      WorkField ''Data di creazione'', WorkField ''Tecnica'', WorkField ''Materiale'',
      WorkField ''Dimensioni'', WorkField ''Genere'']"
proof -
  let ?F = "[WorkField ''Data di creazione'', WorkField ''Tecnica'', WorkField ''Materiale'',
      WorkField ''Dimensioni'', WorkField ''Genere'']"
  have found: "sends (bind (lift (first_id rs)) (\<lambda>i.
         bind (getEntity net WorkEntity i) (\<lambda>workEntity.
           seq (detach (displayWorkData net workEntity))
          (seq (set_prop ''viewOnWikidata'' Href (JStr (wiki_page_url i)))
               (set_prop ''viewOnWikidata'' Disabled (JBool False)))))) (WorkEntity # ?F)" for rs
    using sends_bind [OF sends_silent(2) sends_bind [OF sends_getEntity
            sends_seq [OF sends_detach [OF sends_displayWorkData]
              sends_seq [OF sends_silent(4) sends_silent(4)]]]]
    by simp
  have none: "sends (displayNoWorkData a) (WorkEntity # ?F)"
    unfolding displayNoWorkData_def
    by (rule sends_weaken [OF sends_silent(4)]) simp
  have "sends (bind (lift (js_get rs ''length'')) (\<lambda>len.
       if js_gt0 len then
         bind (lift (first_id rs)) (\<lambda>i.
         bind (getEntity net WorkEntity i) (\<lambda>workEntity.
           seq (detach (displayWorkData net workEntity))
          (seq (set_prop ''viewOnWikidata'' Href (JStr (wiki_page_url i)))
               (set_prop ''viewOnWikidata'' Disabled (JBool False)))))
       else displayNoWorkData a)) (WorkEntity # ?F)" for rs
    by (rule sends_bind_silent [OF sends_silent(2)], rule sends_if, rule found, rule none)
  then show ?thesis
    unfolding loadWorkData_def
    by (rule sends_bind_Cons [OF sends_searchEntities])
qed

lemma sends_init: "sends (init net a) request_sites"
proof -
  have shown: "sends showLoading []" "sends hideLoading []" "sends showContent []"
    "sends showError []"
    unfolding showLoading_def hideLoading_def showContent_def showError_def
    using sends_seq [OF sends_silent(4) sends_silent(4)] by (simp_all add: sends_silent)
  have handler: "sends (seq (console_error ''Error initializing app:'' err)
            (seq hideLoading (seq showContent showError))) []" for err
    using sends_seq [OF sends_silent(3) sends_seq [OF shown(2) sends_seq [OF shown(3) shown(4)]]]
    by simp
  have body: "sends
          (seq (set_prop ''projectTitle'' TextContent (JStr (workName a)))
          (seq (set_prop ''projectArtist'' TextContent (JStr (artistName a)))
          (seq (set_prop ''projectYear'' TextContent (JStr (year a)))
          (seq (set_title (workName a @ '' - '' @ artistName a @ '' | Biennale Eco Archive''))
          (seq (loadArtistData net a)
          (seq (loadWorkData net a)
          (seq hideLoading
               showContent))))))) request_sites"
    using sends_seq [OF sends_silent(4) sends_seq [OF sends_silent(4) sends_seq [OF sends_silent(4)
            sends_seq [OF sends_silent(5) sends_seq [OF sends_loadArtistData
              sends_seq [OF sends_loadWorkData sends_seq [OF shown(2) shown(3)]]]]]]]
    by (simp add: request_sites_def)
  show ?thesis
    unfolding init_def
    using sends_seq [OF shown(1) sends_try_catch [OF body handler]] by simp
qed

lemma distinct_request_sites: "distinct request_sites"
  by (simp add: request_sites_def nazionalita_def)

text \<open>
  Claim C3, as amended. A page load only adds requests, and it sends at most one from
  each of thirteen places: the four places of the two flows (artist search, artist
  entity fetch, work search, work entity fetch), whose requests are sent in this
  order, and one label lookup for each of the nine property fields, sent while the
  value of the property is extracted when that value carries an id. So a page load
  sends at most thirteen requests.
\<close>

theorem page_load_requests:
  "\<exists>rs. requests (page_load ps net w) = requests w @ rs
        \<and> subseq (filter is_flow_site (map fst rs)) [ArtistSearch, ArtistEntity, WorkSearch, WorkEntity]
        \<and> distinct (map fst rs)
        \<and> set (map fst rs) \<subseteq> set request_sites
        \<and> length rs \<le> 13"
proof -
  from sends_init [of net "new_app ps"] obtain rs where
    rs: "requests (page_load ps net w) = requests w @ rs" and sub: "subseq (map fst rs) request_sites"
    unfolding sends_def page_load_def by blast
  have "subseq (filter is_flow_site (map fst rs)) (filter is_flow_site request_sites)"
    using sub by (rule subseq_filter)
  then have 1: "subseq (filter is_flow_site (map fst rs))
                  [ArtistSearch, ArtistEntity, WorkSearch, WorkEntity]"
    by (simp add: request_sites_def)
  have 2: "distinct (map fst rs)"
    using sub distinct_request_sites by (rule subseq_distinct)
  have 3: "set (map fst rs) \<subseteq> set request_sites"
    using sub by (rule subseq_set)
  have "length (map fst rs) \<le> length request_sites"
    using sub by (rule list_emb_length)
  then have 4: "length rs \<le> 13" by (simp add: request_sites_def)
  from rs 1 2 3 4 show ?thesis by blast
qed

text \<open>The statement on the default page and the network that answers everything.\<close>

theorem page_load_requests_witness:
  "\<exists>rs. requests (page_load [] wikidata page0) = requests page0 @ rs
        \<and> subseq (filter is_flow_site (map fst rs))
             [ArtistSearch, ArtistEntity, WorkSearch, WorkEntity]
        \<and> distinct (map fst rs)
        \<and> set (map fst rs) \<subseteq> set request_sites
        \<and> length rs \<le> 13"
  using page_load_requests [of "[]" wikidata page0] by simp

text \<open>Claim C3 as it was stated fails there: the page load sends seven requests, one of
  them the label lookup for the place of birth.\<close>

theorem extra_requests_counterexample:
  "length (requests (page_load [] wikidata page0)) = 7
   \<and> (ArtistField ''Luogo di nascita'', entity_url (JStr ''Q1''))
        \<in> set (requests (page_load [] wikidata page0))"
  by (simp add: wikidata_page_load page0_def)

subsection \<open>The elements that a page load writes\<close>

lemma frame_refl: "frame w w"
  by (simp add: frame_def)

































subsection \<open>The two flows\<close>

text \<open>What a computation returns depends on the network only.\<close>

lemma reads_silent:
  "reads_net (ret v)" "reads_net (lift r)" "reads_net (console_error msg e)"
  "reads_net (set_title t)" "reads_net (fetch_json net site url)" "reads_net (set_prop i p x)"
  by (simp_all add: reads_net_def comp_defs Let_def split: response.splits)

lemma reads_bind:
  assumes "reads_net m" and "\<And>v. reads_net (f v)"
  shows "reads_net (bind m f)"
  unfolding reads_net_def
proof (intro allI)
  fix w w'
  obtain r w1 where mw: "m w = (r, w1)" by (cases "m w")
  obtain r' w1' where mw': "m w' = (r', w1')" by (cases "m w'")
  from assms(1) mw mw' have r: "r' = r" unfolding reads_net_def by (metis fst_conv)
  show "fst (bind m f w) = fst (bind m f w')"
  proof (cases r)
    case (Inl e)
    with mw mw' r show ?thesis by (simp add: bind_def)
  next
    case (Inr v)
    with mw mw' r assms(2) [of v] show ?thesis
      unfolding reads_net_def by (simp add: bind_def)
  qed
qed

lemma reads_seq: "reads_net m \<Longrightarrow> reads_net n \<Longrightarrow> reads_net (seq m n)"
  by (simp add: seq_def reads_bind)

lemma reads_try_catch:
  assumes "reads_net m" and "\<And>e. reads_net (h e)"
  shows "reads_net (try_catch m h)"
  unfolding reads_net_def
proof (intro allI)
  fix w w'
  obtain r w1 where mw: "m w = (r, w1)" by (cases "m w")
  obtain r' w1' where mw': "m w' = (r', w1')" by (cases "m w'")
  from assms(1) mw mw' have r: "r' = r" unfolding reads_net_def by (metis fst_conv)
  show "fst (try_catch m h w) = fst (try_catch m h w')"
  proof (cases r)
    case (Inr v)
    with mw mw' r show ?thesis by (simp add: try_catch_def)
  next
    case (Inl e)
    with mw mw' r assms(2) [of e] show ?thesis
      unfolding reads_net_def by (simp add: try_catch_def)
  qed
qed

lemma reads_getEntity: "reads_net (getEntity net site i)"
  unfolding getEntity_def
  by (intro reads_try_catch reads_bind reads_seq reads_silent)

lemma reads_getEntityLabelById: "reads_net (getEntityLabelById net site i l)"
  unfolding getEntityLabelById_def
  by (intro reads_try_catch reads_bind reads_getEntity reads_silent)

lemma reads_await_val: "reads_net (await_val net site pv)"
  by (cases pv) (simp_all add: reads_silent reads_getEntityLabelById)

lemma reads_property_field: "reads_net (property_field net site e p)"
  unfolding property_field_def
  by (intro reads_bind reads_silent reads_await_val)

lemma reads_date_field: "reads_net (date_field net site e p)"
  unfolding date_field_def unawaited_def
  by (intro reads_bind reads_seq reads_silent reads_await_val)











text \<open>The program on the network where only the artist search answers.\<close>

lemma entity_down_search:
  "searchEntities entity_down ArtistSearch q l w =
     (Inr (JArr [JObj [(''id'', JStr ''Q5'')]]),
      w\<lparr>requests := requests w @ [(ArtistSearch, search_url q l)]\<rparr>)"
  "searchEntities entity_down WorkSearch q l w =
     (Inr (JArr []),
      w\<lparr>requests := requests w @ [(WorkSearch, search_url q l)],
        console := console w @ [(''Error searching Wikidata:'', NetworkError)]\<rparr>)"
  by (simp_all add: searchEntities_def comp_defs entity_down_def found_def)

lemma entity_down_entity:
  "getEntity entity_down ArtistEntity i w =
     (Inr JNull,
      w\<lparr>requests := requests w @ [(ArtistEntity, entity_url i)],
        console := console w @ [(''Error fetching Wikidata entity:'', NetworkError)]\<rparr>)"
  by (simp add: getEntity_def comp_defs entity_down_def)

lemma artistData_null: "artistData net JNull w = (Inl TypeError, w)"
  by (simp add: artistData_def getLabel_def lift_def bind_def)

lemma entity_down_loadArtistData:
  "loadArtistData entity_down a w =
     (Inr (),
      w\<lparr>requests := requests w @
          [(ArtistSearch, search_url (artistName a) ''it''),
           (ArtistEntity, entity_url (JStr ''Q5''))],
        console := console w @ [(''Error fetching Wikidata entity:'', NetworkError)],
        unhandled := unhandled w @ [TypeError]\<rparr>)"
  by (simp add: loadArtistData_def displayArtistData_def first_id_def
        entity_down_search entity_down_entity artistData_null js_gt0_def
        ret_def lift_def bind_def seq_def detach_def)

lemma entity_down_loadWorkData:
  "loadWorkData entity_down a w =
     (Inr (),
      w\<lparr>requests := requests w @
          [(WorkSearch, search_url (workName a @ '' '' @ artistName a) ''it'')],
        console := console w @ [(''Error searching Wikidata:'', NetworkError)],
        elems := (elems w)(''workWikidata'' :=
          (elems w ''workWikidata'')(InnerHTML := JStr (no_work_html (workName a)))),
        removed := (\<lambda>c. removed w c \<or> inside w c ''workWikidata'')\<rparr>)"
  by (simp add: loadWorkData_def displayNoWorkData_def entity_down_search js_gt0_def
        lift_def bind_def set_prop_def)

lemma entity_down_page_load:
  "unhandled (page_load ps entity_down w) = unhandled w @ [TypeError]"
  "console (page_load ps entity_down w) =
     console w @ [(''Error fetching Wikidata entity:'', NetworkError),
                  (''Error searching Wikidata:'', NetworkError)]"
  "elems (page_load ps entity_down w) ''artistWikidata'' = elems w ''artistWikidata''"
  "elems (page_load ps entity_down w) ''projectContent'' InnerHTML
     = elems w ''projectContent'' InnerHTML"
  "elems (page_load ps entity_down w) ''projectContent'' Display = JStr ''block''"
  "elems (page_load ps entity_down w) ''loadingSpinner'' Display = JStr ''none''"
  "requests (page_load ps entity_down w) =
     requests w @
       [(ArtistSearch, search_url (artistName (new_app ps)) ''it''),
        (ArtistEntity, entity_url (JStr ''Q5'')),
        (WorkSearch, search_url (workName (new_app ps) @ '' '' @ artistName (new_app ps)) ''it'')]"
  by (simp_all add: page_load_def init_def showLoading_def hideLoading_def showContent_def
        entity_down_loadArtistData entity_down_loadWorkData
        bind_def seq_def try_catch_def set_prop_def set_title_def)




text \<open>An error of an awaited call reaches the handler of \<open>init\<close>: when the search endpoint
  answers with an error document, \<^verbatim>\<open>artistResults.length\<close> raises a \<open>TypeError\<close> in
  \<open>loadArtistData\<close>, the handler logs it and the content becomes the error panel.\<close>

lemma search_refused_search:
  "searchEntities search_refused site q l w =
     (Inr JUndefined, w\<lparr>requests := requests w @ [(site, search_url q l)]\<rparr>)"
  by (simp add: searchEntities_def comp_defs search_refused_def)

lemma awaited_error_caught:
  "elems (page_load ps search_refused w) ''projectContent'' InnerHTML = JStr error_html"
  "console (page_load ps search_refused w) = console w @ [(''Error initializing app:'', TypeError)]"
  "requests (page_load ps search_refused w) =
     requests w @ [(ArtistSearch, search_url (artistName (new_app ps)) ''it'')]"
  by (simp_all add: page_load_def init_def showLoading_def hideLoading_def showContent_def
        showError_def loadArtistData_def search_refused_search
        lift_def bind_def seq_def try_catch_def set_prop_def set_title_def console_error_def)

text \<open>
  Claim C6 does not hold of the program. On the network where only the artist search
  answers, the entity fetch gives \<open>null\<close> and \<open>getLabel\<close> raises a \<open>TypeError\<close> while the
  artist is rendered. \<open>displayArtistData\<close> is called without \<^verbatim>\<open>await\<close>, so the error ends up
  as the rejection of a promise that nothing awaits: the handler of \<open>init\<close> does not run
  (the console has no entry of it) and the content is not replaced by the error panel.
\<close>

theorem render_error_not_caught:
  "unhandled (page_load [] entity_down page0) = [TypeError]
   \<and> map fst (console (page_load [] entity_down page0))
        = [''Error fetching Wikidata entity:'', ''Error searching Wikidata:'']
   \<and> elems (page_load [] entity_down page0) ''projectContent'' InnerHTML \<noteq> JStr error_html"
  by (simp add: entity_down_page_load page0_def error_html_def nl_def)

subsection \<open>The fields Tecnica and Materiale\<close>

text \<open>The entries of a data object are the results of the computations of the object
  literal, key by key.\<close>

lemma collect_results:
  "fst (collect kms w) = Inr data \<Longrightarrow> (\<And>km. km \<in> set kms \<Longrightarrow> reads_net (snd km)) \<Longrightarrow>
   map fst data = map fst kms
   \<and> (\<forall>j<length kms. fst (snd (kms ! j) w) = Inr (snd (data ! j)))"
proof (induction kms arbitrary: data w)
  case Nil
  then show ?case by (simp add: ret_def)
next
  case (Cons km kms)
  obtain r w1 where h: "snd km w = (r, w1)" by (cases "snd km w")
  with Cons.prems(1) obtain v where r: "r = Inr v"
    by (cases r) (simp_all add: bind_def)
  obtain r2 w2 where t: "collect kms w1 = (r2, w2)" by (cases "collect kms w1")
  with Cons.prems(1) h r obtain vs where r2: "r2 = Inr vs"
    by (cases r2) (simp_all add: bind_def)
  from Cons.prems(1) h r t r2 have data: "data = (fst km, v) # vs"
    by (simp add: bind_def ret_def)
  have "fst (collect kms w1) = Inr vs" by (simp add: t r2)
  then have IH: "map fst vs = map fst kms"
    "\<forall>j<length kms. fst (snd (kms ! j) w1) = Inr (snd (vs ! j))"
    using Cons.IH [of w1 vs] Cons.prems(2) by simp_all
  have same: "fst (snd (kms ! j) w) = fst (snd (kms ! j) w1)" if "j < length kms" for j
    using Cons.prems(2) [of "kms ! j"] that unfolding reads_net_def by simp
  have "fst (snd ((km # kms) ! j) w) = Inr (snd (data ! j))" if "j < length (km # kms)" for j
  proof (cases j)
    case 0
    then show ?thesis by (simp add: data h r)
  next
    case (Suc n)
    with that IH(2) same [of n] show ?thesis by (simp add: data)
  qed
  with IH(1) show ?case by (simp add: data)
qed

lemma map_of_nth:
  assumes "map fst data = ks" and "distinct ks" and "j < length ks"
  shows "map_of data (ks ! j) = Some (snd (data ! j))"
proof -
  have "data = zip ks (map snd data)"
    using assms(1) by (metis zip_map_fst_snd)
  moreover have "length ks = length (map snd data)"
    using assms(1) by (metis length_map)
  ultimately have "map_of data (ks ! j) = Some (map snd data ! j)"
    using map_of_zip_nth [of ks "map snd data" j] assms(2,3) by simp
  moreover have "j < length data" using assms(1,3) by (metis length_map)
  ultimately show ?thesis by simp
qed

lemma label_same_response:
  "net s1 = net s2 \<Longrightarrow>
   fst (getEntityLabelById net s1 i l w) = fst (getEntityLabelById net s2 i l w)"
  by (simp add: getEntityLabelById_def getEntity_def comp_defs Let_def
        split: response.splits sum.splits)

lemma property_field_same:
  assumes "net s1 = net s2 \<or> (\<exists>v. getPropertyValue e p ''it'' = Inr (Plain v))"
  shows "fst (property_field net s1 e p w) = fst (property_field net s2 e p w)"
proof (cases "getPropertyValue e p ''it''")
  case (Inl err)
  then show ?thesis by (simp add: property_field_def bind_def lift_def)
next
  case (Inr pv)
  show ?thesis
  proof (cases pv)
    case (Plain v)
    with Inr show ?thesis by (simp add: property_field_def bind_def lift_def ret_def)
  next
    case (LabelPromise i l)
    with Inr assms have "net s1 = net s2" by simp
    then have "fst (getEntityLabelById net s1 i l w) = fst (getEntityLabelById net s2 i l w)"
      by (rule label_same_response)
    with Inr LabelPromise show ?thesis
      by (simp add: property_field_def bind_def lift_def)
  qed
qed

text \<open>
  Claim C10, as amended. Both fields come from the first claim for P186. In the data
  object that \<open>displayWorkData\<close> renders they are equal when that claim's value carries
  no id, and when it does, provided that the network answers the label lookup of the
  one field as it answers that of the other.
\<close>

theorem tecnica_materiale_equal:
  assumes "fst (workData net work w) = Inr data"
    and "net (WorkField ''Tecnica'') = net (WorkField ''Materiale'')
         \<or> (\<exists>v. getPropertyValue work ''P186'' ''it'' = Inr (Plain v))"
  shows "\<exists>v. map_of data ''Tecnica'' = Some v \<and> map_of data ''Materiale'' = Some v"
proof -
  let ?kms = "[(''Titolo'', lift (getLabel work ''it'')),
        (''Descrizione'', lift (getDescription work ''it'')),
        (''Data di creazione'', date_field net (WorkField ''Data di creazione'') work ''P571''),
        (''Tecnica'', property_field net (WorkField ''Tecnica'') work ''P186''),
        (''Materiale'', property_field net (WorkField ''Materiale'') work ''P186''),
        (''Dimensioni'', property_field net (WorkField ''Dimensioni'') work ''P2049''),
        (''Genere'', property_field net (WorkField ''Genere'') work ''P136'')]"
  have c: "fst (collect ?kms w) = Inr data"
    using assms(1) by (simp only: workData_def)
  have r: "reads_net (snd km)" if "km \<in> set ?kms" for km
    using that by (auto simp: reads_silent reads_date_field reads_property_field)
  from collect_results [OF c r] have keys: "map fst data = work_keys"
    and vals: "\<forall>j<7. fst (snd (?kms ! j) w) = Inr (snd (data ! j))"
    by (simp_all add: work_keys_def)
  have "fst (snd (?kms ! 3) w) = Inr (snd (data ! 3))"
    and "fst (snd (?kms ! 4) w) = Inr (snd (data ! 4))"
    using vals [THEN spec, of 3] vals [THEN spec, of 4] by simp_all
  then have t: "fst (property_field net (WorkField ''Tecnica'') work ''P186'' w)
                  = Inr (snd (data ! 3))"
    and m: "fst (property_field net (WorkField ''Materiale'') work ''P186'' w)
                  = Inr (snd (data ! 4))"
    by simp_all
  from property_field_same [OF assms(2), of w] t m have eq: "snd (data ! 3) = snd (data ! 4)"
    by simp
  have d: "distinct work_keys" by (simp add: work_keys_def)
  have l: "3 < length work_keys" "4 < length work_keys"
    and k: "work_keys ! 3 = ''Tecnica''" "work_keys ! 4 = ''Materiale''"
    by (simp_all add: work_keys_def)
  have "map_of data ''Tecnica'' = Some (snd (data ! 3))"
    and "map_of data ''Materiale'' = Some (snd (data ! 4))"
    using map_of_nth [OF keys d l(1)] map_of_nth [OF keys d l(2)] by (simp_all only: k)
  with eq show ?thesis by simp
qed

text \<open>On the network that answers everything both fields are the label of the material.\<close>

theorem tecnica_materiale_equal_witness:
  "map_of (albero_data ''bronzo'') ''Tecnica'' = Some (JStr ''bronzo'')
   \<and> map_of (albero_data ''bronzo'') ''Materiale'' = Some (JStr ''bronzo'')"
proof -
  have 1: "fst (workData wikidata albero page0) = Inr (albero_data ''bronzo'')"
    by (simp only: wikidata_workData fst_conv)
  have 2: "wikidata (WorkField ''Tecnica'') = wikidata (WorkField ''Materiale'')
           \<or> (\<exists>v. getPropertyValue albero ''P186'' ''it'' = Inr (Plain v))"
    by (simp add: wikidata_def fun_eq_iff)
  have 3: "map_of (albero_data ''bronzo'') ''Tecnica'' = Some (JStr ''bronzo'')"
    by (simp add: albero_data_def)
  from tecnica_materiale_equal [OF 1 2] 3 show ?thesis by auto
qed

text \<open>Claim C10 as it was stated fails when the second lookup fails: \<open>Tecnica\<close> is the
  label, \<open>Materiale\<close> is the id.\<close>

theorem tecnica_materiale_differ_counterexample:
  "fst (workData wikidata_flaky albero page0) = Inr (albero_data ''Q2'')
   \<and> map_of (albero_data ''Q2'') ''Tecnica'' = Some (JStr ''bronzo'')
   \<and> map_of (albero_data ''Q2'') ''Materiale'' = Some (JStr ''Q2'')"
  by (simp add: flaky_workData albero_data_def)

end
